theory Spec2Isabelle
  imports Complex_Main "HOL-Library.Sublist"
begin

section \<open>Strings and numbers as the scripts use them\<close>

text \<open>
  Strings are byte lists. The JavaScript string methods used by the sources
  (\<^verbatim>\<open>startsWith\<close>, \<^verbatim>\<open>endsWith\<close>, \<^verbatim>\<open>toLowerCase\<close>, \<^verbatim>\<open>trim\<close>, \<^verbatim>\<open>split(':')\<close>,
  \<^verbatim>\<open>join(', ')\<close>) are written out; \<^verbatim>\<open>toLowerCase\<close> and \<^verbatim>\<open>trim\<close> act on ASCII.
\<close>

fun startsWith :: "string \<Rightarrow> string \<Rightarrow> bool" where
  "startsWith s [] = True"
| "startsWith [] (p # ps) = False"
| "startsWith (c # cs) (p # ps) = (c = p \<and> startsWith cs ps)"

definition endsWith :: "string \<Rightarrow> string \<Rightarrow> bool" where
  "endsWith s suf = startsWith (rev s) (rev suf)"

definition lower_char :: "char \<Rightarrow> char" where
  "lower_char c =
     (let n = (of_char c :: nat) in if 65 \<le> n \<and> n \<le> 90 then char_of (n + 32) else c)"

definition toLowerCase :: "string \<Rightarrow> string" where
  "toLowerCase s = map lower_char s"

definition is_space :: "char \<Rightarrow> bool" where
  "is_space c = (c \<in> set [CHR '' '', CHR 0x09, CHR 0x0A, CHR 0x0B, CHR 0x0C, CHR 0x0D])"

definition trim :: "string \<Rightarrow> string" where
  "trim s = rev (dropWhile is_space (rev (dropWhile is_space s)))"

fun split_on :: "char \<Rightarrow> string \<Rightarrow> string list" where
  "split_on d [] = [[]]"
| "split_on d (c # cs) =
     (if c = d then [] # split_on d cs
      else (case split_on d cs of [] \<Rightarrow> [[c]] | w # ws \<Rightarrow> (c # w) # ws))"

fun join_with :: "string \<Rightarrow> string list \<Rightarrow> string" where
  "join_with sep [] = []"
| "join_with sep [x] = x"
| "join_with sep (x # y # ys) = x @ sep @ join_with sep (y # ys)"

definition digit_char :: "nat \<Rightarrow> char" where
  "digit_char n = char_of (48 + n)"

function string_of_nat :: "nat \<Rightarrow> string" where
  "string_of_nat n =
     (if n < 10 then [digit_char n] else string_of_nat (n div 10) @ [digit_char (n mod 10)])"
  by pat_completeness auto
termination
  by (relation "measure id") auto

declare string_of_nat.simps [simp del]

definition string_of_int :: "int \<Rightarrow> string" where
  "string_of_int i = (if i < 0 then CHR ''-'' # string_of_nat (nat (- i)) else string_of_nat (nat i))"

section \<open>The Node.js side: validator, extractor, file search\<close>

text \<open>
  A thrown \<^verbatim>\<open>Error\<close> is a value carrying its message; a function that may throw returns
  \<open>js_error + 'a\<close>. \<^verbatim>\<open>this.log\<close> appends a line to the log; the model returns the
  messages a call logs, in order (each is written behind a timestamp), and takes
  the append to the log file to succeed.
\<close>

datatype js_error = Error string

fun message :: "js_error \<Rightarrow> string" where
  "message (Error m) = m"

text \<open>
  The functions of Node's \<^verbatim>\<open>path\<close> module are library code; the sources are modelled
  over any implementation of the four they call.
\<close>

record node_path =
  dirname :: "string \<Rightarrow> string"
  basename :: "string \<Rightarrow> string \<Rightarrow> string"
  join :: "string \<Rightarrow> string \<Rightarrow> string"
  extname :: "string \<Rightarrow> string"

text \<open>
  A stand-in for \<^verbatim>\<open>path.posix\<close> on plain slash-separated paths (no trailing slash, no
  \<^verbatim>\<open>.\<close> or \<^verbatim>\<open>..\<close> segments), for running the models on concrete inputs.
\<close>

definition posix_dirname :: "string \<Rightarrow> string" where
  "posix_dirname p =
     (let segs = split_on (CHR ''/'') p in
      if length segs \<le> 1 then ''.''
      else (let d = join_with ''/'' (butlast segs) in if d = [] then ''/'' else d))"

definition posix_basename :: "string \<Rightarrow> string \<Rightarrow> string" where
  "posix_basename p ext =
     (let b = last (split_on (CHR ''/'') p) in
      if endsWith b ext \<and> b \<noteq> ext then take (length b - length ext) b else b)"

definition posix_join :: "string \<Rightarrow> string \<Rightarrow> string" where
  "posix_join a b = (if a = ''.'' then b else if a = ''/'' then ''/'' @ b else a @ ''/'' @ b)"

definition posix_extname :: "string \<Rightarrow> string" where
  "posix_extname p =
     (let b = last (split_on (CHR ''/'') p);
          n = length (takeWhile (\<lambda>c. c \<noteq> CHR ''.'') (rev b)) in
      if CHR ''.'' \<notin> set b \<or> n + 1 = length b \<or> b = ''..'' then []
      else drop (length b - (n + 1)) b)"

definition posix_path :: node_path where
  "posix_path = \<lparr> dirname = posix_dirname, basename = posix_basename,
                  join = posix_join, extname = posix_extname \<rparr>"

text \<open>What \<^verbatim>\<open>fs.statSync\<close> reports of a path; a path outside the map does not exist.\<close>

record stat =
  size_bytes :: nat
  isDirectory :: bool

type_synonym filesystem = "string \<rightharpoonup> stat"

subsection \<open>validateArtifact\<close>

definition payload_extensions :: "string list" where
  "payload_extensions = [''.apk'', ''.ipa'', ''.aab'']"

definition validateArtifact :: "node_path \<Rightarrow> filesystem \<Rightarrow> string \<Rightarrow> (js_error + bool) \<times> string list" where
  "validateArtifact P fs filePath =
     (case fs filePath of
        None \<Rightarrow> (Inl (Error (''Artifact file not found: '' @ filePath)), [])
      | Some stats \<Rightarrow>
          if size_bytes stats = 0 then (Inl (Error (''Artifact file is empty: '' @ filePath)), [])
          else
            (let ext = toLowerCase (extname P filePath) in
             (Inr True,
              (if ext \<notin> set payload_extensions
               then [''Warning: Unexpected file type: '' @ ext] else []) @
              [''Artifact validation passed: '' @ filePath @ '' ('' @
                 string_of_nat (size_bytes stats) @ '' bytes)''])))"

text \<open>The warnings among the lines a call logged.\<close>

definition warnings :: "string list \<Rightarrow> string list" where
  "warnings logged = filter (\<lambda>l. startsWith l ''Warning: '') logged"

subsection \<open>Directory listings\<close>

text \<open>
  What \<^verbatim>\<open>fs.readdirSync\<close> finds below a directory: files, directories with their own
  entries, and directories whose listing throws.
\<close>

datatype dirent = File string | Dir string "dirent list" | Unreadable string js_error

fun name :: "dirent \<Rightarrow> string" where
  "name (File n) = n"
| "name (Dir n es) = n"
| "name (Unreadable n e) = n"

subsection \<open>extractArtifact\<close>

text \<open>The calls of \<^verbatim>\<open>extractArtifact\<close> into the platform, each as it answers when made.\<close>

record extract_env =
  existsSync :: "string \<Rightarrow> bool"
  mkdirSync :: "string \<Rightarrow> js_error option"
  execSync :: "string \<Rightarrow> js_error + string"
  readdirSync :: "string \<Rightarrow> js_error + dirent list"

definition is_mobile_artifact :: "string \<Rightarrow> bool" where
  "is_mobile_artifact f = (endsWith f ''.apk'' \<or> endsWith f ''.ipa'' \<or> endsWith f ''.aab'')"

definition extractDir :: "node_path \<Rightarrow> string \<Rightarrow> string" where
  "extractDir P zipPath = join P (dirname P zipPath) (basename P zipPath ''.zip'')"

definition extractCmd :: "node_path \<Rightarrow> string \<Rightarrow> string" where
  "extractCmd P zipPath = ''cd \"'' @ extractDir P zipPath @ ''\" && unzip -o \"'' @ zipPath @ ''\"''"

text \<open>The body of the \<^verbatim>\<open>try\<close> block: the first statement that throws ends it.\<close>

definition extract_try :: "node_path \<Rightarrow> extract_env \<Rightarrow> string \<Rightarrow> js_error + (string \<times> string list)" where
  "extract_try P env zipPath =
     (case (if \<not> existsSync env (extractDir P zipPath)
            then mkdirSync env (extractDir P zipPath) else None) of
        Some e \<Rightarrow> Inl e
      | None \<Rightarrow>
         (case execSync env (extractCmd P zipPath) of
            Inl e \<Rightarrow> Inl e
          | Inr out \<Rightarrow>
             (case readdirSync env (extractDir P zipPath) of
                Inl e \<Rightarrow> Inl e
              | Inr entries \<Rightarrow>
                 (let files = map name entries in
                  case List.find is_mobile_artifact files of
                    Some artifactFile \<Rightarrow>
                      (let artifactPath = join P (extractDir P zipPath) artifactFile in
                       Inr (artifactPath, [''Extracted artifact: '' @ artifactPath]))
                  | None \<Rightarrow>
                      Inr (extractDir P zipPath,
                           [''No mobile artifact found in extracted files: '' @
                              join_with '', '' files])))))"

definition extractArtifact :: "node_path \<Rightarrow> extract_env \<Rightarrow> string \<Rightarrow> (js_error + string) \<times> string list" where
  "extractArtifact P env zipPath =
     (if \<not> endsWith zipPath ''.zip'' then (Inr zipPath, [])
      else
        (case extract_try P env zipPath of
           Inr (p, logged) \<Rightarrow> (Inr p, logged)
         | Inl error \<Rightarrow>
             (Inr zipPath, [''Failed to extract '' @ zipPath @ '': '' @ message error])))"

subsection \<open>findFiles\<close>

fun searchDir :: "node_path \<Rightarrow> string \<Rightarrow> string \<Rightarrow> dirent list \<Rightarrow> string list \<Rightarrow> js_error + string list" where
  "searchDir P extension dir [] files = Inr files"
| "searchDir P extension dir (File n # entries) files =
     searchDir P extension dir entries
       (if endsWith n extension then files @ [join P dir n] else files)"
| "searchDir P extension dir (Dir n children # entries) files =
     (case searchDir P extension (join P dir n) children files of
        Inl e \<Rightarrow> Inl e
      | Inr files' \<Rightarrow> searchDir P extension dir entries files')"
| "searchDir P extension dir (Unreadable n e # entries) files = Inl e"

definition findFiles :: "node_path \<Rightarrow> (string \<Rightarrow> js_error + dirent list) \<Rightarrow> string \<Rightarrow> string \<Rightarrow> js_error + string list" where
  "findFiles P readdir directory extension =
     (case readdir directory of
        Inl e \<Rightarrow> Inl e
      | Inr entries \<Rightarrow> searchDir P extension directory entries [])"

section \<open>Properties of the validator and the extractor\<close>

lemma startsWith_append [simp]: "startsWith (p @ s) p"
  by (induction p) auto

definition fs_example :: filesystem where
  "fs_example = [''/dl/app.APK'' \<mapsto> \<lparr>size_bytes = 10, isDirectory = False\<rparr>,
                 ''/dl/app.zip'' \<mapsto> \<lparr>size_bytes = 10, isDirectory = False\<rparr>,
                 ''/dl/empty.apk'' \<mapsto> \<lparr>size_bytes = 0, isDirectory = False\<rparr>]"

text \<open>
  Claim C6. \<^verbatim>\<open>validateArtifact\<close> throws exactly when the path does not exist (the
  not-found error) or its size is zero (the empty error). On every existing
  non-empty path it returns \<^verbatim>\<open>true\<close>; the only warning it can log is the one for an
  extension outside \<^verbatim>\<open>.apk\<close>, \<^verbatim>\<open>.ipa\<close>, \<^verbatim>\<open>.aab\<close> (compared in lower case), and it logs
  none when the extension is one of the three.
\<close>

theorem validateArtifact_verdict:
  "((\<exists>e. fst (validateArtifact P fs p) = Inl e) \<longleftrightarrow>
      (fs p = None \<or> (\<exists>st. fs p = Some st \<and> size_bytes st = 0))) \<and>
   (fs p = None \<longrightarrow>
      fst (validateArtifact P fs p) = Inl (Error (''Artifact file not found: '' @ p))) \<and>
   (\<forall>st. fs p = Some st \<and> size_bytes st = 0 \<longrightarrow>
      fst (validateArtifact P fs p) = Inl (Error (''Artifact file is empty: '' @ p))) \<and>
   (\<forall>st. fs p = Some st \<and> size_bytes st \<noteq> 0 \<longrightarrow>
      fst (validateArtifact P fs p) = Inr True \<and>
      warnings (snd (validateArtifact P fs p)) =
        (if toLowerCase (extname P p) \<in> set payload_extensions then []
         else [''Warning: Unexpected file type: '' @ toLowerCase (extname P p)]))"
  by (auto simp: validateArtifact_def Let_def warnings_def split: option.splits)

theorem validateArtifact_verdict_witness:
  "fst (validateArtifact posix_path fs_example ''/dl/app.APK'') = Inr True \<and>
   warnings (snd (validateArtifact posix_path fs_example ''/dl/app.APK'')) = [] \<and>
   warnings (snd (validateArtifact posix_path fs_example ''/dl/app.zip'')) =
      [''Warning: Unexpected file type: .zip''] \<and>
   fst (validateArtifact posix_path fs_example ''/dl/empty.apk'') =
      Inl (Error ''Artifact file is empty: /dl/empty.apk'') \<and>
   fst (validateArtifact posix_path fs_example ''/dl/none.apk'') =
      Inl (Error ''Artifact file not found: /dl/none.apk'')"
proof -
  have a: "fs_example ''/dl/app.APK'' = Some \<lparr>size_bytes = 10, isDirectory = False\<rparr>"
    and z: "fs_example ''/dl/app.zip'' = Some \<lparr>size_bytes = 10, isDirectory = False\<rparr>"
    and e: "fs_example ''/dl/empty.apk'' = Some \<lparr>size_bytes = 0, isDirectory = False\<rparr>"
    and n: "fs_example ''/dl/none.apk'' = None"
    by (simp_all add: fs_example_def)
  have xa: "toLowerCase (extname posix_path ''/dl/app.APK'') = ''.apk''"
    and xz: "toLowerCase (extname posix_path ''/dl/app.zip'') = ''.zip''"
    by code_simp+
  show ?thesis
    using validateArtifact_verdict [of posix_path fs_example "''/dl/app.APK''"]
      validateArtifact_verdict [of posix_path fs_example "''/dl/app.zip''"]
      validateArtifact_verdict [of posix_path fs_example "''/dl/empty.apk''"]
      validateArtifact_verdict [of posix_path fs_example "''/dl/none.apk''"]
    by (simp add: a z e n xa xz payload_extensions_def)
qed




section \<open>The Node.js side: downloads\<close>

subsection \<open>downloadFile\<close>

text \<open>
  \<^verbatim>\<open>downloadFile\<close> returns a promise that settles once, with the first of the events
  its handlers wait for. For the \<open>n\<close>-th request of a run the network answers
  with a response, with an error of the request, or not at all within the five
  minutes of \<^verbatim>\<open>request.setTimeout(300000, ...)\<close>; the body of a 200 response then
  streams into the file until the file stream finishes, the file stream or the
  request fails, or the timeout fires. A failed transfer may leave bytes on disk.
  A redirect hands the promise over to the download of its \<^verbatim>\<open>Location\<close>. Progress
  output is left out.
\<close>

type_synonym headers = "(string \<times> string) list"

datatype http_client = Http | Https

record request =
  client :: http_client
  url :: string
  req_headers :: headers

record response =
  statusCode :: nat
  statusMessage :: string
  location :: "string option"
  content_length :: "nat option"

datatype net_event = Response response | RequestError js_error | RequestTimeout

datatype transfer =
    Finish string
  | FileStreamError js_error "string option"
  | RequestErrorDuring js_error "string option"
  | TimeoutDuring "string option"

record network =
  respond :: "nat \<Rightarrow> request \<Rightarrow> net_event"
  stream :: "nat \<Rightarrow> request \<Rightarrow> transfer"

record dl_state =
  requests :: "request list"
  files :: "string \<rightharpoonup> string"
  logged :: "string list"

definition get_request :: "string \<Rightarrow> headers \<Rightarrow> request" where
  "get_request u hdrs =
     \<lparr> client = (if startsWith u ''https:'' then Https else Http), url = u, req_headers = hdrs \<rparr>"

text \<open>Lines 36 to 40: the log line, then \<^verbatim>\<open>client.get(url, { headers }, ...)\<close>.\<close>

definition start_request :: "string \<Rightarrow> string \<Rightarrow> headers \<Rightarrow> dl_state \<Rightarrow> dl_state" where
  "start_request u outputPath hdrs s =
     s\<lparr> logged := logged s @ [''Downloading '' @ u @ '' to '' @ outputPath],
        requests := requests s @ [get_request u hdrs] \<rparr>"

definition log_line :: "string \<Rightarrow> dl_state \<Rightarrow> dl_state" where
  "log_line m s = s\<lparr> logged := logged s @ [m] \<rparr>"

definition write_file :: "string \<Rightarrow> string option \<Rightarrow> dl_state \<Rightarrow> dl_state" where
  "write_file p written s =
     (case written of None \<Rightarrow> s | Some bytes \<Rightarrow> s\<lparr> files := (files s)(p \<mapsto> bytes) \<rparr>)"

text \<open>Lines 54 to 81 for a 200 response: which handler settles the promise.\<close>

definition pipe_to_file :: "transfer \<Rightarrow> string \<Rightarrow> dl_state \<Rightarrow> (js_error + string) \<times> dl_state" where
  "pipe_to_file t outputPath s =
     (case t of
        Finish body \<Rightarrow> (Inr outputPath, write_file outputPath (Some body) s)
      | FileStreamError e written \<Rightarrow> (Inl e, write_file outputPath written s)
      | RequestErrorDuring e written \<Rightarrow> (Inl e, write_file outputPath written s)
      | TimeoutDuring written \<Rightarrow>
          (Inl (Error ''Download timeout''), write_file outputPath written s))"

text \<open>
  A chain of redirects need not end, so the result is an option: \<open>None\<close> is the
  promise that never settles.
\<close>

partial_function (option) downloadFile ::
  "network \<Rightarrow> string \<Rightarrow> string \<Rightarrow> headers \<Rightarrow> dl_state \<Rightarrow> ((js_error + string) \<times> dl_state) option" where
  "downloadFile net u outputPath hdrs s =
     (case respond net (length (requests s)) (get_request u hdrs) of
        RequestError e \<Rightarrow> Some (Inl e, start_request u outputPath hdrs s)
      | RequestTimeout \<Rightarrow>
          Some (Inl (Error ''Download timeout''), start_request u outputPath hdrs s)
      | Response r \<Rightarrow>
          if statusCode r = 302 \<or> statusCode r = 301 then
            (case location r of
               None \<Rightarrow>
                 Some (Inl (Error ''Cannot read properties of undefined (reading startsWith)''),
                       log_line ''Redirected to: undefined'' (start_request u outputPath hdrs s))
             | Some l \<Rightarrow>
                 downloadFile net l outputPath hdrs
                   (log_line (''Redirected to: '' @ l) (start_request u outputPath hdrs s)))
          else if statusCode r \<noteq> 200 then
            Some (Inl (Error (''HTTP '' @ string_of_nat (statusCode r) @ '': '' @ statusMessage r)),
                  start_request u outputPath hdrs s)
          else
            Some (pipe_to_file (stream net (length (requests s)) (get_request u hdrs)) outputPath
                    (start_request u outputPath hdrs s)))"

text \<open>
  \<open>redirects_to net hdrs n u m v\<close>: the download that issues its request for \<open>u\<close>
  as the \<open>n\<close>-th request is redirected, hop by hop, to \<open>v\<close>, requested as the
  \<open>m\<close>-th.
\<close>

inductive redirects_to :: "network \<Rightarrow> headers \<Rightarrow> nat \<Rightarrow> string \<Rightarrow> nat \<Rightarrow> string \<Rightarrow> bool"
  for net :: network and hdrs :: headers where
  here: "redirects_to net hdrs n u n u"
| hop: "respond net n (get_request u hdrs) = Response r \<Longrightarrow>
        statusCode r = 301 \<or> statusCode r = 302 \<Longrightarrow>
        location r = Some l \<Longrightarrow>
        redirects_to net hdrs (Suc n) l m v \<Longrightarrow>
        redirects_to net hdrs n u m v"




subsection \<open>downloadGitHubArtifact\<close>

record artifact_info =
  art_name :: string
  archive_download_url :: "string option"
  size_in_bytes :: nat

text \<open>
  The platform as \<^verbatim>\<open>downloadGitHubArtifact\<close> meets it: the parsed answer of
  \<^verbatim>\<open>gh api .../artifacts --jq .artifacts[0]\<close> for a repository and a run
  (\<open>None\<close> for \<^verbatim>\<open>null\<close>), the output of \<^verbatim>\<open>gh auth token\<close>, the network, and the
  file-system calls of the extractor.
\<close>

record github_env = extract_env +
  gh_artifact :: "string \<Rightarrow> string \<Rightarrow> js_error + artifact_info option"
  gh_auth_token :: "js_error + string"
  gh_net :: network

definition unzipCmd :: "string \<Rightarrow> string \<Rightarrow> string" where
  "unzipCmd outputPath dir = ''unzip -o \"'' @ outputPath @ ''\" -d \"'' @ dir @ ''\"''"

text \<open>Lines 109 to 129: unpack the zip and look for \<^verbatim>\<open>.apk\<close> files below it.\<close>

definition extract_apk ::
  "node_path \<Rightarrow> 'a extract_env_scheme \<Rightarrow> string \<Rightarrow> string \<Rightarrow> string \<Rightarrow> dl_state \<Rightarrow>
     (js_error + string) \<times> dl_state" where
  "extract_apk P env outputDir artifactName outputPath s =
     (if endsWith outputPath ''.zip'' then
        (case mkdirSync env (join P outputDir artifactName) of
           Some e \<Rightarrow> (Inl e, s)
         | None \<Rightarrow>
            (case execSync env (unzipCmd outputPath (join P outputDir artifactName)) of
               Inl e \<Rightarrow> (Inr outputPath, log_line (''Extraction failed: '' @ message e) s)
             | Inr out \<Rightarrow>
                (case findFiles P (readdirSync env) (join P outputDir artifactName) ''.apk'' of
                   Inl e \<Rightarrow>
                     (Inr outputPath,
                      log_line (''Extraction failed: '' @ message e)
                        (log_line (''Extracted to: '' @ join P outputDir artifactName) s))
                 | Inr [] \<Rightarrow>
                     (Inr outputPath,
                      log_line (''Extracted to: '' @ join P outputDir artifactName) s)
                 | Inr (apk # apks) \<Rightarrow>
                     (Inr apk,
                      log_line (''Found APK files: '' @ join_with '', '' (apk # apks))
                        (log_line (''Extracted to: '' @ join P outputDir artifactName) s)))))
      else (Inr outputPath, s))"

text \<open>The body of the outer \<^verbatim>\<open>try\<close> block.\<close>

definition github_try ::
  "node_path \<Rightarrow> 'a github_env_scheme \<Rightarrow> string \<Rightarrow> string \<Rightarrow> string \<Rightarrow> dl_state \<Rightarrow>
     ((js_error + string) \<times> dl_state) option" where
  "github_try P env repo runId outputDir s =
     (case gh_artifact env repo runId of
        Inl e \<Rightarrow> Some (Inl e, s)
      | Inr None \<Rightarrow> Some (Inl (Error ''No artifacts found for this run''), s)
      | Inr (Some artifactInfo) \<Rightarrow>
         (case archive_download_url artifactInfo of
            None \<Rightarrow> Some (Inl (Error ''No artifacts found for this run''), s)
          | Some downloadUrl \<Rightarrow>
             if downloadUrl = [] then Some (Inl (Error ''No artifacts found for this run''), s)
             else
              (case gh_auth_token env of
                 Inl e \<Rightarrow>
                   Some (Inl e,
                         log_line (''Artifact: '' @ art_name artifactInfo @ '' ('' @
                                   string_of_nat (size_in_bytes artifactInfo) @ '' bytes)'') s)
               | Inr token \<Rightarrow>
                  (case downloadFile (gh_net env) downloadUrl
                          (join P outputDir (art_name artifactInfo @ ''.zip''))
                          [(''Authorization'', ''token '' @ trim token),
                           (''User-Agent'', ''termux-orchestrator'')]
                          (log_line (''Artifact: '' @ art_name artifactInfo @ '' ('' @
                                     string_of_nat (size_in_bytes artifactInfo) @ '' bytes)'') s) of
                     None \<Rightarrow> None
                   | Some (Inl e, s') \<Rightarrow> Some (Inl e, s')
                   | Some (Inr outputPath, s') \<Rightarrow>
                       Some (extract_apk P env outputDir (art_name artifactInfo) outputPath s')))))"

definition downloadGitHubArtifact ::
  "node_path \<Rightarrow> 'a github_env_scheme \<Rightarrow> string \<Rightarrow> string \<Rightarrow> string \<Rightarrow> dl_state \<Rightarrow>
     ((js_error + string) \<times> dl_state) option" where
  "downloadGitHubArtifact P env repo runId outputDir s =
     (case github_try P env repo runId outputDir
             (log_line (''Downloading GitHub Actions artifact for '' @ repo @ '':'' @ runId) s) of
        None \<Rightarrow> None
      | Some (Inl error, s') \<Rightarrow>
          Some (Inl (Error (''GitHub artifact download failed: '' @ message error)), s')
      | Some (Inr p, s') \<Rightarrow> Some (Inr p, s'))"

section \<open>Properties of the downloads\<close>

lemma requests_start_request [simp]:
  "requests (start_request u out hdrs s) = requests s @ [get_request u hdrs]"
  by (simp add: start_request_def)

lemma requests_log_line [simp]: "requests (log_line m s) = requests s"
  by (simp add: log_line_def)

lemma files_start_request [simp]: "files (start_request u out hdrs s) = files s"
  by (simp add: start_request_def)

lemma files_log_line [simp]: "files (log_line m s) = files s"
  by (simp add: log_line_def)

definition no_downloads :: dl_state where
  "no_downloads = \<lparr> requests = [], files = Map.empty, logged = [] \<rparr>"

definition found :: response where
  "found = \<lparr> statusCode = 302, statusMessage = ''Found'',
             location = Some ''https://cdn.example/x.zip'', content_length = None \<rparr>"

definition ok4 :: response where
  "ok4 = \<lparr> statusCode = 200, statusMessage = ''OK'', location = None, content_length = Some 4 \<rparr>"


text \<open>A network that redirects the first request and serves four bytes to the second.\<close>

definition net_redirect :: network where
  "net_redirect =
     \<lparr> respond = (\<lambda>n req. if n = 0 then Response found else Response ok4),
       stream = (\<lambda>n req. Finish ''PK34'') \<rparr>"


text \<open>
  Claim C4. When the first response is a 301 or 302 with a \<^verbatim>\<open>Location\<close> and the
  request for that location is answered by a 200 whose body streams to the end,
  \<^verbatim>\<open>downloadFile\<close> resolves with the output path after exactly two requests, the
  second one for the location with the headers of the first; the file then holds
  the body, so that its size is the content-length the final response declared
  (a response that reaches its end has delivered the bytes it declared).
\<close>

theorem downloadFile_follows_redirect:
  assumes "respond net (length (requests s)) (get_request u hdrs) = Response r1"
      and "statusCode r1 = 301 \<or> statusCode r1 = 302"
      and "location r1 = Some l"
      and "respond net (Suc (length (requests s))) (get_request l hdrs) = Response r2"
      and "statusCode r2 = 200"
      and "stream net (Suc (length (requests s))) (get_request l hdrs) = Finish body"
      and "content_length r2 = Some (length body)"
  shows "\<exists>s'. downloadFile net u out hdrs s = Some (Inr out, s') \<and>
              requests s' = requests s @ [get_request u hdrs, get_request l hdrs] \<and>
              url (get_request l hdrs) = l \<and> req_headers (get_request l hdrs) = hdrs \<and>
              files s' out = Some body \<and>
              map_option length (files s' out) = content_length r2"
proof -
  let ?s1 = "log_line (''Redirected to: '' @ l) (start_request u out hdrs s)"
  have 1: "downloadFile net u out hdrs s = downloadFile net l out hdrs ?s1"
    using assms(1-3) by (subst downloadFile.simps) auto
  have 2: "downloadFile net l out hdrs ?s1 =
        Some (pipe_to_file (Finish body) out (start_request l out hdrs ?s1))"
    using assms(4-6) by (subst downloadFile.simps) simp
  show ?thesis
    unfolding 1 2 using assms(7)
    by (simp add: pipe_to_file_def write_file_def get_request_def)
qed

theorem downloadFile_follows_redirect_witness:
  "\<exists>s'. downloadFile net_redirect ''https://api.example/zip'' ''/dl/x.zip''
            [(''Authorization'', ''token t'')] no_downloads = Some (Inr ''/dl/x.zip'', s') \<and>
        requests s' =
          [get_request ''https://api.example/zip'' [(''Authorization'', ''token t'')],
           get_request ''https://cdn.example/x.zip'' [(''Authorization'', ''token t'')]] \<and>
        files s' ''/dl/x.zip'' = Some ''PK34'' \<and>
        map_option length (files s' ''/dl/x.zip'') = Some 4"
proof -
  have "respond net_redirect (length (requests no_downloads))
          (get_request ''https://api.example/zip'' [(''Authorization'', ''token t'')]) =
        Response found"
    and "statusCode found = 301 \<or> statusCode found = 302"
    and "location found = Some ''https://cdn.example/x.zip''"
    and "respond net_redirect (Suc (length (requests no_downloads)))
          (get_request ''https://cdn.example/x.zip'' [(''Authorization'', ''token t'')]) =
        Response ok4"
    and "statusCode ok4 = 200"
    and "stream net_redirect (Suc (length (requests no_downloads)))
          (get_request ''https://cdn.example/x.zip'' [(''Authorization'', ''token t'')]) =
        Finish ''PK34''"
    and "content_length ok4 = Some (length ''PK34'')"
    by (simp_all add: net_redirect_def no_downloads_def found_def ok4_def)
  from downloadFile_follows_redirect [OF this, of "''/dl/x.zip''"]
  obtain s' where
    "downloadFile net_redirect ''https://api.example/zip'' ''/dl/x.zip''
       [(''Authorization'', ''token t'')] no_downloads = Some (Inr ''/dl/x.zip'', s')"
    "requests s' = requests no_downloads @
       [get_request ''https://api.example/zip'' [(''Authorization'', ''token t'')],
        get_request ''https://cdn.example/x.zip'' [(''Authorization'', ''token t'')]]"
    "files s' ''/dl/x.zip'' = Some ''PK34''"
    by blast
  then show ?thesis
    by (intro exI [of _ s']) (simp add: no_downloads_def)
qed



text \<open>Unpacked archives: an \<^verbatim>\<open>.apk\<close> one directory down, and an \<^verbatim>\<open>.ipa\<close> alone.\<close>

definition nested_apk :: extract_env where
  "nested_apk =
     \<lparr> existsSync = (\<lambda>d. False), mkdirSync = (\<lambda>d. None), execSync = (\<lambda>c. Inr []),
       readdirSync = (\<lambda>d. Inr [File ''README.txt'', Dir ''build'' [File ''app.apk'']]) \<rparr>"

definition only_ipa :: extract_env where
  "only_ipa =
     \<lparr> existsSync = (\<lambda>d. False), mkdirSync = (\<lambda>d. None), execSync = (\<lambda>c. Inr []),
       readdirSync = (\<lambda>d. Inr [File ''app.ipa'']) \<rparr>"

text \<open>
  Claim C5 fails as stated. \<^verbatim>\<open>extractArtifact\<close> reads only the top level of the
  unpacked directory: with the \<^verbatim>\<open>.apk\<close> one directory down, which the recursive
  \<^verbatim>\<open>findFiles\<close> does find, it returns the directory. \<^verbatim>\<open>downloadGitHubArtifact\<close>
  searches recursively, but for \<^verbatim>\<open>.apk\<close> only, and with none it returns the zip
  path, not the directory: an unpacked \<^verbatim>\<open>.ipa\<close> is passed over.
\<close>

theorem archive_scan_counterexample:
  "fst (extractArtifact posix_path nested_apk ''/dl/app.zip'') = Inr ''/dl/app'' \<and>
   findFiles posix_path (readdirSync nested_apk) ''/dl/app'' ''.apk'' =
     Inr [''/dl/app/build/app.apk''] \<and>
   findFiles posix_path (readdirSync only_ipa) ''/dl/app'' ''.ipa'' = Inr [''/dl/app/app.ipa''] \<and>
   fst (extract_apk posix_path only_ipa ''/dl'' ''app'' ''/dl/app.zip'' no_downloads) =
     Inr ''/dl/app.zip''"
  by code_simp

text \<open>
  Claim C5, amended. For a path ending in \<^verbatim>\<open>.zip\<close> that unpacks,
  \<^verbatim>\<open>extractArtifact\<close> unpacks into the directory beside the archive that is named
  after it, and returns the first top-level entry of that directory whose name
  ends in \<^verbatim>\<open>.apk\<close>, \<^verbatim>\<open>.ipa\<close> or \<^verbatim>\<open>.aab\<close>, or the directory itself when no top-level
  entry does; it does not throw. \<^verbatim>\<open>downloadGitHubArtifact\<close> unpacks into the
  directory named after the artifact and returns the first \<^verbatim>\<open>.apk\<close> that the
  recursive \<^verbatim>\<open>findFiles\<close> lists, or the zip path when there is none or the search
  throws.
\<close>

theorem archive_scan:
  "(endsWith z ''.zip'' \<and>
    (existsSync env (extractDir P z) \<or> mkdirSync env (extractDir P z) = None) \<and>
    execSync env (extractCmd P z) = Inr out \<and> readdirSync env (extractDir P z) = Inr entries
    \<longrightarrow> extractDir P z = join P (dirname P z) (basename P z ''.zip'') \<and>
        fst (extractArtifact P env z) =
         (case List.find is_mobile_artifact (map name entries) of
            Some f \<Rightarrow> Inr (join P (extractDir P z) f)
          | None \<Rightarrow> Inr (extractDir P z))) \<and>
   (endsWith zp ''.zip'' \<and> mkdirSync genv (join P dir a) = None \<and>
    execSync genv (unzipCmd zp (join P dir a)) = Inr out'
    \<longrightarrow> fst (extract_apk P genv dir a zp s) =
         (case findFiles P (readdirSync genv) (join P dir a) ''.apk'' of
            Inr (apk # apks) \<Rightarrow> Inr apk
          | Inr [] \<Rightarrow> Inr zp
          | Inl e \<Rightarrow> Inr zp))"
  by (auto simp: extractArtifact_def extract_try_def extract_apk_def extractDir_def Let_def
           split: sum.splits option.splits list.splits)

definition top_level_apk :: extract_env where
  "top_level_apk =
     \<lparr> existsSync = (\<lambda>d. False), mkdirSync = (\<lambda>d. None), execSync = (\<lambda>c. Inr []),
       readdirSync = (\<lambda>d. Inr [File ''README.txt'', File ''app.apk'']) \<rparr>"

theorem archive_scan_witness:
  "fst (extractArtifact posix_path top_level_apk ''/dl/app.zip'') = Inr ''/dl/app/app.apk'' \<and>
   fst (extractArtifact posix_path nested_apk ''/dl/app.zip'') = Inr ''/dl/app'' \<and>
   fst (extract_apk posix_path nested_apk ''/dl'' ''app'' ''/dl/app.zip'' no_downloads) =
     Inr ''/dl/app/build/app.apk''"
proof -
  have z: "endsWith ''/dl/app.zip'' ''.zip''"
    by (simp add: endsWith_def)
  have d: "extractDir posix_path ''/dl/app.zip'' = ''/dl/app''"
    and j: "join posix_path ''/dl'' ''app'' = ''/dl/app''"
    and j2: "join posix_path ''/dl/app'' ''app.apk'' = ''/dl/app/app.apk''"
    by code_simp+
  have f: "\<not> is_mobile_artifact ''README.txt''" "is_mobile_artifact ''app.apk''"
      "\<not> is_mobile_artifact ''build''"
    by code_simp+
  have h: "findFiles posix_path (readdirSync nested_apk) ''/dl/app'' ''.apk'' =
             Inr [''/dl/app/build/app.apk'']"
    by code_simp
  have t: "mkdirSync top_level_apk (extractDir posix_path ''/dl/app.zip'') = None"
      "execSync top_level_apk (extractCmd posix_path ''/dl/app.zip'') = Inr []"
      "readdirSync top_level_apk (extractDir posix_path ''/dl/app.zip'') =
         Inr [File ''README.txt'', File ''app.apk'']"
    by (simp_all add: top_level_apk_def)
  have n: "mkdirSync nested_apk (extractDir posix_path ''/dl/app.zip'') = None"
      "execSync nested_apk (extractCmd posix_path ''/dl/app.zip'') = Inr []"
      "readdirSync nested_apk (extractDir posix_path ''/dl/app.zip'') =
         Inr [File ''README.txt'', Dir ''build'' [File ''app.apk'']]"
      "mkdirSync nested_apk (join posix_path ''/dl'' ''app'') = None"
      "execSync nested_apk (unzipCmd ''/dl/app.zip'' (join posix_path ''/dl'' ''app'')) = Inr []"
    by (simp_all add: nested_apk_def)
  have "fst (extractArtifact posix_path top_level_apk ''/dl/app.zip'') =
          (case List.find is_mobile_artifact
                  (map name [File ''README.txt'', File ''app.apk'']) of
             Some f \<Rightarrow> Inr (join posix_path (extractDir posix_path ''/dl/app.zip'') f)
           | None \<Rightarrow> Inr (extractDir posix_path ''/dl/app.zip''))"
    using archive_scan [of "''/dl/app.zip''" top_level_apk posix_path] z t by blast
  then have 1: "fst (extractArtifact posix_path top_level_apk ''/dl/app.zip'') =
      Inr ''/dl/app/app.apk''"
    by (simp add: f d j2)
  have "fst (extractArtifact posix_path nested_apk ''/dl/app.zip'') =
          (case List.find is_mobile_artifact
                  (map name [File ''README.txt'', Dir ''build'' [File ''app.apk'']]) of
             Some f \<Rightarrow> Inr (join posix_path (extractDir posix_path ''/dl/app.zip'') f)
           | None \<Rightarrow> Inr (extractDir posix_path ''/dl/app.zip''))"
    using archive_scan [of "''/dl/app.zip''" nested_apk posix_path] z n by blast
  then have 2: "fst (extractArtifact posix_path nested_apk ''/dl/app.zip'') = Inr ''/dl/app''"
    by (simp add: f d)
  have "fst (extract_apk posix_path nested_apk ''/dl'' ''app'' ''/dl/app.zip'' no_downloads) =
          (case findFiles posix_path (readdirSync nested_apk) (join posix_path ''/dl'' ''app'')
                  ''.apk'' of
             Inr (apk # apks) \<Rightarrow> Inr apk
           | Inr [] \<Rightarrow> Inr ''/dl/app.zip''
           | Inl e \<Rightarrow> Inr ''/dl/app.zip'')"
    using archive_scan [where zp = "''/dl/app.zip''" and genv = nested_apk and P = posix_path
        and dir = "''/dl''" and a = "''app''" and s = no_downloads] z n
    by blast
  then have 3: "fst (extract_apk posix_path nested_apk ''/dl'' ''app'' ''/dl/app.zip''
      no_downloads) = Inr ''/dl/app/build/app.apk''"
    by (simp add: j h)
  from 1 2 3 show ?thesis by blast
qed

section \<open>The Node.js side: polling (trigger_ci.js)\<close>

text \<open>
  What a poll does, in order: status queries, the query for the artifact, the
  30-second waits and the lines it logs.
\<close>

datatype js_event = StatusQuery int | ArtifactQuery int | Wait nat | Logged string

definition status_queries :: "js_event list \<Rightarrow> nat" where
  "status_queries tr = length (filter (\<lambda>e. case e of StatusQuery n \<Rightarrow> True | ArtifactQuery n \<Rightarrow> False
                                                | Wait ms \<Rightarrow> False | Logged m \<Rightarrow> False) tr)"

record poll_result =
  success :: bool
  artifactUrl :: string
  buildRef :: string

text \<open>
  The three poll functions share one loop, word for word: up to
  \<^verbatim>\<open>maxWaitMinutes * 2\<close> attempts, each the provider's \<^verbatim>\<open>try\<close> block, which returns a
  result, falls through to the next attempt after its 30-second wait (\<open>Inr None\<close>)
  or throws; the \<^verbatim>\<open>catch\<close> block rethrows on the last attempt and otherwise logs,
  waits 30 seconds and lets the loop go on. After the loop comes the timeout error.
\<close>

function poll_attempts ::
  "(int \<Rightarrow> (js_error + poll_result option) \<times> js_event list) \<Rightarrow> int \<Rightarrow> int \<Rightarrow> js_event list \<Rightarrow>
     (js_error + poll_result) \<times> js_event list" where
  "poll_attempts try_block maxWaitMinutes attempt tr =
     (if attempt \<le> maxWaitMinutes * 2 then
        (case try_block attempt of
           (Inr (Some result), evs) \<Rightarrow> (Inr result, tr @ evs)
         | (Inr None, evs) \<Rightarrow> poll_attempts try_block maxWaitMinutes (attempt + 1) (tr @ evs)
         | (Inl error, evs) \<Rightarrow>
             if attempt = maxWaitMinutes * 2 then (Inl error, tr @ evs)
             else poll_attempts try_block maxWaitMinutes (attempt + 1)
                    (tr @ evs @
                     [Logged (''Polling attempt '' @ string_of_int attempt @ '' failed: '' @
                              message error), Wait 30000]))
      else
        (Inl (Error (''Build did not complete within '' @ string_of_int maxWaitMinutes @
                     '' minutes'')), tr))"
  by pat_completeness auto
termination
  by (relation "measure (\<lambda>(f, m, a, tr). nat (m * 2 + 1 - a))") auto

declare poll_attempts.simps [simp del]

subsection \<open>pollGitHubActions\<close>

text \<open>
  The answers of the two \<^verbatim>\<open>gh api\<close> commands at each attempt: the output, or the
  error \<^verbatim>\<open>execSync\<close> throws.
\<close>

record github_poll_env =
  status_cmd :: "int \<Rightarrow> js_error + string"
  artifacts_cmd :: "int \<Rightarrow> js_error + string"

text \<open>\<^verbatim>\<open>const [runStatus, conclusion] = status.split(':')\<close>; a missing part is \<^verbatim>\<open>undefined\<close>.\<close>

definition runStatus :: "string \<Rightarrow> string" where
  "runStatus status = (case split_on (CHR '':'') status of [] \<Rightarrow> [] | r # rest \<Rightarrow> r)"

definition conclusion :: "string \<Rightarrow> string option" where
  "conclusion status =
     (case split_on (CHR '':'') status of [] \<Rightarrow> None | [r] \<Rightarrow> None | r # c # rest \<Rightarrow> Some c)"

definition or_undefined :: "string option \<Rightarrow> string" where
  "or_undefined v = (case v of None \<Rightarrow> ''undefined'' | Some s \<Rightarrow> s)"

definition github_try_block ::
  "github_poll_env \<Rightarrow> string \<Rightarrow> int \<Rightarrow> int \<Rightarrow> (js_error + poll_result option) \<times> js_event list" where
  "github_try_block env runId maxAttempts attempt =
     (case status_cmd env attempt of
        Inl e \<Rightarrow> (Inl e, [StatusQuery attempt])
      | Inr out \<Rightarrow>
         (let status = trim out;
              evs = [StatusQuery attempt,
                     Logged (''Attempt '' @ string_of_int attempt @ ''/'' @ string_of_int maxAttempts @
                             '': '' @ runStatus status @ '' ('' @ or_undefined (conclusion status) @
                             '')'')] in
          if runStatus status = ''completed'' then
            (if conclusion status = Some ''success'' then
               (case artifacts_cmd env attempt of
                  Inl e \<Rightarrow> (Inl e, evs @ [ArtifactQuery attempt])
                | Inr u \<Rightarrow>
                    (Inr (Some \<lparr> success = True, artifactUrl = trim u, buildRef = runId \<rparr>),
                     evs @ [ArtifactQuery attempt,
                            Logged (''Build completed successfully. Artifact: '' @ trim u)]))
             else
               (Inl (Error (''Build failed with conclusion: '' @ or_undefined (conclusion status))),
                evs))
          else (Inr None, evs @ [Wait 30000])))"

definition pollGitHubActions ::
  "github_poll_env \<Rightarrow> string \<Rightarrow> string \<Rightarrow> int \<Rightarrow> (js_error + poll_result) \<times> js_event list" where
  "pollGitHubActions env repo runId maxWaitMinutes =
     poll_attempts (github_try_block env runId (maxWaitMinutes * 2)) maxWaitMinutes 1
       [Logged (''Polling GitHub Actions run '' @ runId @ '' (max '' @
                string_of_int maxWaitMinutes @ '' minutes)'')]"

subsection \<open>pollEAS\<close>

text \<open>The parsed answer of \<^verbatim>\<open>eas build:view --json\<close>, as far as the poll reads it.\<close>

record eas_build =
  eas_status :: string
  eas_buildUrl :: "string option"
  eas_error :: "string option"

definition truthy :: "string option \<Rightarrow> bool" where
  "truthy v = (case v of None \<Rightarrow> False | Some s \<Rightarrow> s \<noteq> [])"

definition eas_try_block ::
  "(int \<Rightarrow> js_error + eas_build) \<Rightarrow> string \<Rightarrow> int \<Rightarrow> int \<Rightarrow> (js_error + poll_result option) \<times> js_event list" where
  "eas_try_block view buildId maxAttempts attempt =
     (case view attempt of
        Inl e \<Rightarrow> (Inl e, [StatusQuery attempt])
      | Inr result \<Rightarrow>
         (let evs = [StatusQuery attempt,
                     Logged (''Attempt '' @ string_of_int attempt @ ''/'' @ string_of_int maxAttempts @
                             '': '' @ eas_status result)] in
          if eas_status result = ''finished'' then
            (if truthy (eas_buildUrl result) then
               (Inr (Some \<lparr> success = True, artifactUrl = the (eas_buildUrl result),
                             buildRef = buildId \<rparr>),
                evs @ [Logged (''Build completed successfully. Artifact: '' @
                               the (eas_buildUrl result))])
             else (Inl (Error ''EAS build finished but no artifact URL found''), evs))
          else if eas_status result = ''errored'' \<or> eas_status result = ''canceled'' then
            (Inl (Error (''EAS build '' @ eas_status result @ '': '' @
                         (if truthy (eas_error result) then the (eas_error result)
                          else ''Unknown error''))), evs)
          else (Inr None, evs @ [Wait 30000])))"

definition pollEAS ::
  "(int \<Rightarrow> js_error + eas_build) \<Rightarrow> string \<Rightarrow> int \<Rightarrow> (js_error + poll_result) \<times> js_event list" where
  "pollEAS view buildId maxWaitMinutes =
     poll_attempts (eas_try_block view buildId (maxWaitMinutes * 2)) maxWaitMinutes 1
       [Logged (''Polling EAS build '' @ buildId @ '' (max '' @ string_of_int maxWaitMinutes @
                '' minutes)'')]"

section \<open>The shell side: poll_and_deliver.sh\<close>

text \<open>
  A run of a script is the list of what it did, in order: the lines of \<^verbatim>\<open>log\<close>
  (each goes to standard output and to the log file, behind the timestamp of
  \<^verbatim>\<open>date\<close>), the lines of \<^verbatim>\<open>echo\<close>, and the commands it ran. A command answers as
  the environment says; where the answer can change during a run it depends on
  the attempt or on the number of events so far. Commands whose failure the
  scripts do not test (\<^verbatim>\<open>mkdir\<close>, \<^verbatim>\<open>date\<close>, \<^verbatim>\<open>tee\<close>, \<^verbatim>\<open>sleep\<close>, \<^verbatim>\<open>termux-notification\<close>)
  are taken to succeed. Numbers are the integers the shell arithmetic computes,
  within its 64 bits.
\<close>

datatype sh_event =
    Log string string
  | Echo string
  | PollQuery
  | Sleep int
  | Notification string string string
  | NodeDownload string
  | Du string
  | Chmod string
  | FileCmd string
  | TermuxOpenApk string
  | TermuxOpenDir string
  | AdbVersion
  | AdbDevices
  | AdbInstall string
  | ManualInstructions string

datatype sh_result = Returned nat | Exited nat

record sh_env =
  date :: "nat \<Rightarrow> string"
  has_command :: "string \<Rightarrow> bool"
  fs :: filesystem
  readable :: "string \<Rightarrow> bool"
  file_says_android :: "string \<Rightarrow> bool"
  du_h :: "string \<Rightarrow> string"
  chmod_ok :: "string \<Rightarrow> bool"
  sh_dirname :: "string \<Rightarrow> string"
  sh_basename :: "string \<Rightarrow> string"
  CODEMAGIC_ACCESS_TOKEN :: string
  SCRIPT_DIR :: string
  gh_api :: "int \<Rightarrow> string option"
  curl_build :: "int \<Rightarrow> string option"
  jq_status :: "string \<Rightarrow> string option"
  jq_success :: "string \<Rightarrow> string option"
  eas_view_status :: "int \<Rightarrow> string option"
  node_download :: "string \<Rightarrow> nat \<times> string"
  jq_file :: "string \<Rightarrow> string option"
  find_apk :: "string \<Rightarrow> string"
  termux_open :: "nat \<Rightarrow> string \<Rightarrow> bool"
  adb_version :: "nat \<Rightarrow> string option"
  adb_devices :: "nat \<Rightarrow> string list option"
  adb_install :: "nat \<Rightarrow> string \<Rightarrow> bool"

text \<open>The variables of \<^verbatim>\<open>main\<close> once the arguments are parsed, and the two constants.\<close>

record deliver_args =
  CI_PROVIDER :: string
  REPO :: string
  RUN_ID :: string
  BUILD_ID :: string
  OUTPUT_DIR :: string
  AUTO_INSTALL :: bool
  NO_NOTIFY :: bool
  TIMEOUT_SECONDS :: int
  POLL_INTERVAL :: int

definition sh_log :: "'a sh_env_scheme \<Rightarrow> string \<Rightarrow> sh_event list \<Rightarrow> sh_event list" where
  "sh_log env msg tr = tr @ [Log (date env (length tr)) msg]"

definition die :: "'a sh_env_scheme \<Rightarrow> string \<Rightarrow> sh_event list \<Rightarrow> sh_result \<times> sh_event list" where
  "die env msg tr = (Exited 1, sh_log env (''FATAL: '' @ msg) tr)"

definition is_file :: "'a sh_env_scheme \<Rightarrow> string \<Rightarrow> bool" where
  "is_file env p = (case fs env p of None \<Rightarrow> False | Some st \<Rightarrow> \<not> isDirectory st)"

definition bool_word :: "bool \<Rightarrow> string" where
  "bool_word b = (if b then ''true'' else ''false'')"

subsection \<open>notify\<close>

definition notify ::
  "'a sh_env_scheme \<Rightarrow> bool \<Rightarrow> string \<Rightarrow> string \<Rightarrow> string \<Rightarrow> sh_event list \<Rightarrow> sh_event list" where
  "notify env no_notify title msg action tr =
     (if no_notify then sh_log env (''Notification disabled: '' @ title @ '' - '' @ msg) tr
      else if has_command env ''termux-notification'' then
        sh_log env (''Notification sent: '' @ title @ '' - '' @ msg)
          (tr @ [Notification title msg action])
      else
        sh_log env (''Notification failed: '' @ title @ '' - '' @ msg)
          (sh_log env ''Warning: termux-notification not available. Install termux-api package.''
             tr))"

subsection \<open>The poll loops\<close>

text \<open>
  \<^verbatim>\<open>poll_github\<close>, \<^verbatim>\<open>poll_codemagic\<close> and \<^verbatim>\<open>poll_eas\<close> share their loop, word for
  word: while \<^verbatim>\<open>attempts\<close> is below \<^verbatim>\<open>max_attempts\<close>, count the attempt, log it, and
  run the provider's step, which returns 0, dies, or sleeps and goes round again
  (after a failed query as after a status that is not final).
\<close>

datatype poll_step = Succeeded | Died | Again

function poll_loop ::
  "'a sh_env_scheme \<Rightarrow> (int \<Rightarrow> sh_event list \<Rightarrow> poll_step \<times> sh_event list) \<Rightarrow> deliver_args \<Rightarrow>
     int \<Rightarrow> int \<Rightarrow> sh_event list \<Rightarrow> sh_result \<times> sh_event list" where
  "poll_loop env step args max_attempts attempts tr =
     (if attempts < max_attempts then
        (case step (attempts + 1)
                (sh_log env (''Poll attempt '' @ string_of_int (attempts + 1) @ ''/'' @
                             string_of_int max_attempts) tr) of
           (Succeeded, tr') \<Rightarrow> (Returned 0, tr')
         | (Died, tr') \<Rightarrow> (Exited 1, tr')
         | (Again, tr') \<Rightarrow>
             poll_loop env step args max_attempts (attempts + 1) (tr' @ [Sleep (POLL_INTERVAL args)]))
      else
        die env (''Build did not complete within '' @ string_of_int (TIMEOUT_SECONDS args) @
                 '' seconds'') tr)"
  by pat_completeness auto
termination
  by (relation "measure (\<lambda>(env, step, args, m, a, tr). nat (m - a))") auto

declare poll_loop.simps [simp del]

text \<open>
  \<^verbatim>\<open>$((TIMEOUT_SECONDS / POLL_INTERVAL))\<close>: the shell's division truncates towards
  zero, and dividing by zero is an error that ends the script.
\<close>

definition sh_div :: "int \<Rightarrow> int \<Rightarrow> int" where
  "sh_div a b = sgn a * sgn b * (\<bar>a\<bar> div \<bar>b\<bar>)"

definition poll_with ::
  "'a sh_env_scheme \<Rightarrow> (int \<Rightarrow> sh_event list \<Rightarrow> poll_step \<times> sh_event list) \<Rightarrow> deliver_args \<Rightarrow>
     sh_event list \<Rightarrow> sh_result \<times> sh_event list" where
  "poll_with env step args tr =
     (if POLL_INTERVAL args = 0 then (Exited 1, tr)
      else poll_loop env step args (sh_div (TIMEOUT_SECONDS args) (POLL_INTERVAL args)) 0 tr)"

text \<open>\<^verbatim>\<open>${status_info%%:*}\<close> and \<^verbatim>\<open>${status_info##*:}\<close>.\<close>

definition before_first_colon :: "string \<Rightarrow> string" where
  "before_first_colon s = takeWhile (\<lambda>c. c \<noteq> CHR '':'') s"

definition after_last_colon :: "string \<Rightarrow> string" where
  "after_last_colon s = rev (takeWhile (\<lambda>c. c \<noteq> CHR '':'') (rev s))"

definition github_step ::
  "'a sh_env_scheme \<Rightarrow> int \<Rightarrow> sh_event list \<Rightarrow> poll_step \<times> sh_event list" where
  "github_step env attempts tr =
     (case gh_api env attempts of
        None \<Rightarrow> (Again, sh_log env ''Failed to get run status, retrying...'' (tr @ [PollQuery]))
      | Some status_info \<Rightarrow>
         (let status = before_first_colon status_info;
              conclusion = after_last_colon status_info;
              tr' = sh_log env (''Status: '' @ status @ '', Conclusion: '' @ conclusion)
                      (tr @ [PollQuery]) in
          if status = ''completed'' then
            (if conclusion = ''success'' then
               (Succeeded, sh_log env ''Build completed successfully!'' tr')
             else (Died, snd (die env (''Build failed with conclusion: '' @ conclusion) tr')))
          else if status = ''in_progress'' \<or> status = ''queued'' then
            (Again, sh_log env ''Build in progress, waiting...'' tr')
          else
            (Again, sh_log env (''Unknown status: '' @ status @ '', continuing to poll...'') tr')))"

definition poll_github ::
  "'a sh_env_scheme \<Rightarrow> deliver_args \<Rightarrow> string \<Rightarrow> string \<Rightarrow> sh_event list \<Rightarrow> sh_result \<times> sh_event list" where
  "poll_github env args repo run_id tr =
     (if \<not> has_command env ''gh'' then
        die env ''GitHub CLI (gh) not found. Install with: pkg install gh''
          (sh_log env (''Polling GitHub Actions: '' @ repo @ '' run '' @ run_id) tr)
      else
        poll_with env (github_step env) args
          (sh_log env (''Polling GitHub Actions: '' @ repo @ '' run '' @ run_id) tr))"

definition codemagic_step ::
  "'a sh_env_scheme \<Rightarrow> int \<Rightarrow> sh_event list \<Rightarrow> poll_step \<times> sh_event list" where
  "codemagic_step env attempts tr =
     (case curl_build env attempts of
        None \<Rightarrow> (Again, sh_log env ''Failed to get build status, retrying...'' (tr @ [PollQuery]))
      | Some response \<Rightarrow>
         (case jq_status env response of
            None \<Rightarrow>
              (Again, sh_log env ''Failed to parse build status, retrying...'' (tr @ [PollQuery]))
          | Some status \<Rightarrow>
             (let tr' = sh_log env (''Status: '' @ status) (tr @ [PollQuery]) in
              if status = ''finished'' then
                (if jq_success env response = Some ''true'' then
                   (Succeeded, sh_log env ''Build completed successfully!'' tr')
                 else (Died, snd (die env ''Build finished but failed'' tr')))
              else if status = ''building'' \<or> status = ''preparing'' \<or> status = ''provisioning'' then
                (Again, sh_log env ''Build in progress, waiting...'' tr')
              else if status = ''failed'' then (Died, snd (die env ''Build failed'' tr'))
              else
                (Again,
                 sh_log env (''Unknown status: '' @ status @ '', continuing to poll...'') tr'))))"

definition poll_codemagic ::
  "'a sh_env_scheme \<Rightarrow> deliver_args \<Rightarrow> string \<Rightarrow> sh_event list \<Rightarrow> sh_result \<times> sh_event list" where
  "poll_codemagic env args build_id tr =
     (if CODEMAGIC_ACCESS_TOKEN env = [] then
        die env ''CODEMAGIC_ACCESS_TOKEN environment variable required''
          (sh_log env (''Polling Codemagic: build '' @ build_id) tr)
      else
        poll_with env (codemagic_step env) args
          (sh_log env (''Polling Codemagic: build '' @ build_id) tr))"

definition eas_step ::
  "'a sh_env_scheme \<Rightarrow> int \<Rightarrow> sh_event list \<Rightarrow> poll_step \<times> sh_event list" where
  "eas_step env attempts tr =
     (case eas_view_status env attempts of
        None \<Rightarrow> (Again, sh_log env ''Failed to get build status, retrying...'' (tr @ [PollQuery]))
      | Some status \<Rightarrow>
         (let tr' = sh_log env (''Status: '' @ status) (tr @ [PollQuery]) in
          if status = ''finished'' then
            (Succeeded, sh_log env ''Build completed successfully!'' tr')
          else if status = ''in-queue'' \<or> status = ''in-progress'' then
            (Again, sh_log env ''Build in progress, waiting...'' tr')
          else if status = ''errored'' \<or> status = ''canceled'' then
            (Died, snd (die env (''Build '' @ status) tr'))
          else
            (Again, sh_log env (''Unknown status: '' @ status @ '', continuing to poll...'') tr')))"

definition poll_eas ::
  "'a sh_env_scheme \<Rightarrow> deliver_args \<Rightarrow> string \<Rightarrow> sh_event list \<Rightarrow> sh_result \<times> sh_event list" where
  "poll_eas env args build_id tr =
     (if \<not> has_command env ''eas'' then
        die env ''EAS CLI not found. Install with: npm install -g eas-cli''
          (sh_log env (''Polling EAS: build '' @ build_id) tr)
      else
        poll_with env (eas_step env) args (sh_log env (''Polling EAS: build '' @ build_id) tr))"

definition poll_queries :: "sh_event list \<Rightarrow> nat" where
  "poll_queries tr = length (filter (\<lambda>e. e = PollQuery) tr)"

section \<open>Properties of the pollers\<close>

subsection \<open>The shell loop\<close>

lemma poll_queries_append [simp]: "poll_queries (xs @ ys) = poll_queries xs + poll_queries ys"
  by (simp add: poll_queries_def)

lemma poll_queries_sh_log [simp]: "poll_queries (sh_log env msg tr) = poll_queries tr"
  by (simp add: sh_log_def poll_queries_def)

lemma poll_queries_single [simp]:
  "poll_queries [PollQuery] = 1" "poll_queries [Sleep i] = 0" "poll_queries [] = 0"
  by (simp_all add: poll_queries_def)

lemma poll_queries_die [simp]: "poll_queries (snd (die env msg tr)) = poll_queries tr"
  by (simp add: die_def)

lemma github_step_queries [simp]:
  "poll_queries (snd (github_step env j tr)) = Suc (poll_queries tr)"
  by (simp add: github_step_def Let_def split: option.splits)

lemma codemagic_step_queries [simp]:
  "poll_queries (snd (codemagic_step env j tr)) = Suc (poll_queries tr)"
  by (simp add: codemagic_step_def Let_def split: option.splits)

lemma eas_step_queries [simp]:
  "poll_queries (snd (eas_step env j tr)) = Suc (poll_queries tr)"
  by (simp add: eas_step_def Let_def split: option.splits)

text \<open>A loop all of whose remaining steps go round again runs out of attempts.\<close>

lemma poll_loop_times_out:
  assumes "\<And>j t. poll_queries (snd (step j t)) = Suc (poll_queries t)"
      and "\<And>j t. a < j \<Longrightarrow> j \<le> m \<Longrightarrow> fst (step j t) = Again"
  shows "\<exists>ts tr'. poll_loop env step args m a tr =
           (Exited 1, tr' @ [Log ts (''FATAL: Build did not complete within '' @
                                      string_of_int (TIMEOUT_SECONDS args) @ '' seconds'')]) \<and>
         poll_queries tr' = poll_queries tr + nat (m - a)"
  using assms
proof (induction env step args m a tr rule: poll_loop.induct)
  case (1 env step args m a tr)
  show ?case
  proof (cases "a < m")
    case False
    then show ?thesis
      by (subst poll_loop.simps) (simp add: die_def sh_log_def)
  next
    case True
    let ?t = "sh_log env (''Poll attempt '' @ string_of_int (a + 1) @ ''/'' @ string_of_int m) tr"
    obtain t' where st: "step (a + 1) ?t = (Again, t')"
      using "1.prems"(2) [of "a + 1" ?t] True by (cases "step (a + 1) ?t") auto
    have "poll_queries (snd (step (a + 1) ?t)) = Suc (poll_queries ?t)"
      by (rule "1.prems"(1))
    then have q: "poll_queries t' = Suc (poll_queries tr)"
      unfolding st by simp
    have "\<exists>ts tr'. poll_loop env step args m (a + 1) (t' @ [Sleep (POLL_INTERVAL args)]) =
           (Exited 1, tr' @ [Log ts (''FATAL: Build did not complete within '' @
                                      string_of_int (TIMEOUT_SECONDS args) @ '' seconds'')]) \<and>
         poll_queries tr' = poll_queries (t' @ [Sleep (POLL_INTERVAL args)]) + nat (m - (a + 1))"
      using True st "1.prems" by (intro "1.IH") auto
    then show ?thesis
      using True st q by (subst poll_loop.simps) (auto simp: nat_diff_distrib)
  qed
qed

definition github_final :: "string option \<Rightarrow> bool" where
  "github_final answer =
     (case answer of None \<Rightarrow> False | Some status_info \<Rightarrow> before_first_colon status_info = ''completed'')"

lemma github_step_again:
  "\<not> github_final (gh_api env j) \<Longrightarrow> fst (github_step env j t) = Again"
  by (auto simp: github_step_def github_final_def Let_def split: option.splits)

lemma sh_div_nonneg: "0 \<le> a \<Longrightarrow> 0 < b \<Longrightarrow> sh_div a b = a div b"
  by (cases "a = 0") (simp_all add: sh_div_def)

lemma poll_github_times_out:
  assumes "0 \<le> TIMEOUT_SECONDS args" and "0 < POLL_INTERVAL args"
      and "has_command env ''gh''"
      and "\<And>n. \<not> github_final (gh_api env n)"
  shows "\<exists>ts tr'. poll_github env args repo run_id tr =
           (Exited 1, tr' @ [Log ts (''FATAL: Build did not complete within '' @
                                      string_of_int (TIMEOUT_SECONDS args) @ '' seconds'')]) \<and>
         int (poll_queries tr') = int (poll_queries tr) + TIMEOUT_SECONDS args div POLL_INTERVAL args"
proof -
  let ?m = "TIMEOUT_SECONDS args div POLL_INTERVAL args"
  let ?t = "sh_log env (''Polling GitHub Actions: '' @ repo @ '' run '' @ run_id) tr"
  have m: "0 \<le> ?m"
    using assms(1,2) by (simp add: pos_imp_zdiv_nonneg_iff)
  obtain ts tr' where
    "poll_loop env (github_step env) args ?m 0 ?t =
       (Exited 1, tr' @ [Log ts (''FATAL: Build did not complete within '' @
                                  string_of_int (TIMEOUT_SECONDS args) @ '' seconds'')])"
    "poll_queries tr' = poll_queries ?t + nat (?m - 0)"
    using poll_loop_times_out [of "github_step env" 0 ?m env args ?t]
      github_step_again [OF assms(4)] by auto
  then show ?thesis
    using assms(1-3) m by (auto simp: poll_github_def poll_with_def sh_div_nonneg)
qed

lemma floor_le_ceiling_div:
  "(T :: int) div I \<le> \<lceil>real_of_int T / real_of_int I\<rceil>"
proof -
  have "T div I = \<lfloor>real_of_int T / real_of_int I\<rfloor>"
    by (simp add: floor_divide_of_int_eq)
  also have "\<dots> \<le> \<lceil>real_of_int T / real_of_int I\<rceil>"
    by (rule floor_le_ceiling)
  finally show ?thesis .
qed

subsection \<open>The JavaScript loop\<close>

lemma status_queries_append [simp]:
  "status_queries (xs @ ys) = status_queries xs + status_queries ys"
  by (simp add: status_queries_def)

lemma status_queries_simps [simp]:
  "status_queries [] = 0"
  "status_queries (StatusQuery n # tr) = Suc (status_queries tr)"
  "status_queries (ArtifactQuery n # tr) = status_queries tr"
  "status_queries (Wait ms # tr) = status_queries tr"
  "status_queries (Logged msg # tr) = status_queries tr"
  by (simp_all add: status_queries_def)

definition timeout_error :: "int \<Rightarrow> js_error" where
  "timeout_error maxWaitMinutes =
     Error (''Build did not complete within '' @ string_of_int maxWaitMinutes @ '' minutes'')"

text \<open>
  A loop whose remaining attempts each make one status query and return no
  result makes them all, and ends with the error of the last attempt if that one
  threw, with the timeout error otherwise.
\<close>

lemma poll_attempts_exhausts:
  assumes "\<And>j. a \<le> j \<Longrightarrow> j \<le> m * 2 \<Longrightarrow>
             status_queries (snd (tb j)) = 1 \<and> (\<forall>r. fst (tb j) \<noteq> Inr (Some r))"
      and "a \<le> m * 2 + 1"
  shows "status_queries (snd (poll_attempts tb m a tr)) = status_queries tr + nat (m * 2 + 1 - a) \<and>
         fst (poll_attempts tb m a tr) =
           Inl (if a \<le> m * 2 then (case fst (tb (m * 2)) of Inl e \<Rightarrow> e | Inr r \<Rightarrow> timeout_error m)
                else timeout_error m)"
  using assms
proof (induction "nat (m * 2 + 1 - a)" arbitrary: a tr)
  case 0
  then have "\<not> a \<le> m * 2"
    by simp
  then show ?case
    using "0.prems"(2) by (subst (1 2) poll_attempts.simps) (simp add: timeout_error_def)
next
  case (Suc n)
  then have le: "a \<le> m * 2"
    by simp
  obtain res evs where tb: "tb a = (res, evs)"
    by (cases "tb a")
  have one: "status_queries evs = 1" and none: "\<And>r. res \<noteq> Inr (Some r)"
    using Suc.prems(1) [of a] le tb by auto
  show ?case
  proof (cases "a = m * 2")
    case True
    then show ?thesis
      using tb one none
      by (subst (1 2) poll_attempts.simps, subst (1 2) poll_attempts.simps)
         (auto simp: timeout_error_def split: sum.splits option.splits)
  next
    case False
    then have lt: "a + 1 \<le> m * 2"
      using le by simp
    have n: "n = nat (m * 2 + 1 - (a + 1))"
      using Suc.hyps(2) by simp
    have step: "status_queries (snd (poll_attempts tb m (a + 1) t)) =
                  status_queries t + nat (m * 2 + 1 - (a + 1)) \<and>
                fst (poll_attempts tb m (a + 1) t) =
                  Inl (case fst (tb (m * 2)) of Inl e \<Rightarrow> e | Inr r \<Rightarrow> timeout_error m)" for t
      using Suc.hyps(1) [OF n, of t] Suc.prems(1) lt by simp
    show ?thesis
      using le False tb one none step
      by (subst (1 2) poll_attempts.simps)
         (auto simp: nat_diff_distrib split: sum.splits option.splits)
  qed
qed

definition github_js_final :: "js_error + string \<Rightarrow> bool" where
  "github_js_final answer =
     (case answer of Inl e \<Rightarrow> False | Inr out \<Rightarrow> runStatus (trim out) = ''completed'')"

lemma github_try_block_pending:
  assumes "\<not> github_js_final (status_cmd env j)"
  shows "status_queries (snd (github_try_block env runId M j)) = 1"
    and "fst (github_try_block env runId M j) \<noteq> Inr (Some r)"
    and "fst (github_try_block env runId M j) =
           (case status_cmd env j of Inl e \<Rightarrow> Inl e | Inr out \<Rightarrow> Inr None)"
  using assms
  by (auto simp: github_try_block_def github_js_final_def Let_def split: sum.splits)

lemma pollGitHubActions_exhausts:
  assumes "0 \<le> m" and "\<And>n. \<not> github_js_final (status_cmd env n)"
  shows "int (status_queries (snd (pollGitHubActions env repo runId m))) = m * 2"
    and "fst (pollGitHubActions env repo runId m) =
           Inl (if 0 < m then (case status_cmd env (m * 2) of Inl e \<Rightarrow> e | Inr out \<Rightarrow> timeout_error m)
                else timeout_error m)"
proof -
  let ?tb = "github_try_block env runId (m * 2)"
  let ?tr = "[Logged (''Polling GitHub Actions run '' @ runId @ '' (max '' @
                      string_of_int m @ '' minutes)'')]"
  have *: "status_queries (snd (poll_attempts ?tb m 1 ?tr)) = status_queries ?tr + nat (m * 2 + 1 - 1) \<and>
         fst (poll_attempts ?tb m 1 ?tr) =
           Inl (if 1 \<le> m * 2 then (case fst (?tb (m * 2)) of Inl e \<Rightarrow> e | Inr r \<Rightarrow> timeout_error m)
                else timeout_error m)"
    using assms github_try_block_pending(1,2) [OF assms(2)]
    by (intro poll_attempts_exhausts) auto
  show "int (status_queries (snd (pollGitHubActions env repo runId m))) = m * 2"
    using * assms(1) by (simp add: pollGitHubActions_def)
  have "fst (?tb (m * 2)) = (case status_cmd env (m * 2) of Inl e \<Rightarrow> Inl e | Inr out \<Rightarrow> Inr None)"
    by (rule github_try_block_pending(3) [OF assms(2)])
  then show "fst (pollGitHubActions env repo runId m) =
           Inl (if 0 < m then (case status_cmd env (m * 2) of Inl e \<Rightarrow> e | Inr out \<Rightarrow> timeout_error m)
                else timeout_error m)"
    using * by (auto simp: pollGitHubActions_def split: sum.splits)
qed

subsection \<open>Claims C1 and C2\<close>

text \<open>An environment for the shell scripts: every tool is there, the build never ends.\<close>

definition quiet :: sh_env where
  "quiet =
     \<lparr> date = (\<lambda>n. ''2024-01-15 10:30:00''), has_command = (\<lambda>c. True), fs = Map.empty,
       readable = (\<lambda>p. True), file_says_android = (\<lambda>p. True), du_h = (\<lambda>p. ''5.2M''),
       chmod_ok = (\<lambda>p. True), sh_dirname = posix_dirname, sh_basename = (\<lambda>p. posix_basename p []),
       CODEMAGIC_ACCESS_TOKEN = ''t'', SCRIPT_DIR = ''/home/delivery'',
       gh_api = (\<lambda>n. Some ''in_progress:null''), curl_build = (\<lambda>n. None),
       jq_status = (\<lambda>r. None), jq_success = (\<lambda>r. None), eas_view_status = (\<lambda>n. None),
       node_download = (\<lambda>c. (1, [])), jq_file = (\<lambda>l. None), find_apk = (\<lambda>d. []),
       termux_open = (\<lambda>n p. False), adb_version = (\<lambda>n. None), adb_devices = (\<lambda>n. None),
       adb_install = (\<lambda>n p. False) \<rparr>"

definition one_minute :: deliver_args where
  "one_minute =
     \<lparr> CI_PROVIDER = ''github'', REPO = ''u/r'', RUN_ID = ''42'', BUILD_ID = [],
       OUTPUT_DIR = ''/dl'', AUTO_INSTALL = True, NO_NOTIFY = True, TIMEOUT_SECONDS = 60,
       POLL_INTERVAL = 30 \<rparr>"

text \<open>Runs of \<^verbatim>\<open>gh api\<close> under \<^verbatim>\<open>execSync\<close>: in progress for ever; in progress, then
  a failure of the command at the second attempt; a failed build; a build that
  fails and is then found a success.\<close>

definition in_progress :: github_poll_env where
  "in_progress = \<lparr> status_cmd = (\<lambda>n. Inr ''in_progress:null''),
                   artifacts_cmd = (\<lambda>n. Inr ''https://api.github.com/zip'') \<rparr>"

definition flaky :: github_poll_env where
  "flaky = \<lparr> status_cmd = (\<lambda>n. if n = 2 then Inl (Error ''Command failed: gh api'')
                                 else Inr ''in_progress:null''),
             artifacts_cmd = (\<lambda>n. Inr ''https://api.github.com/zip'') \<rparr>"

definition failed_build :: github_poll_env where
  "failed_build = \<lparr> status_cmd = (\<lambda>n. Inr ''completed:failure''),
                    artifacts_cmd = (\<lambda>n. Inr ''https://api.github.com/zip'') \<rparr>"

definition failed_then_success :: github_poll_env where
  "failed_then_success =
     \<lparr> status_cmd = (\<lambda>n. if n = 1 then Inr ''completed:failure'' else Inr ''completed:success''),
       artifacts_cmd = (\<lambda>n. Inr ''https://api.github.com/zip'') \<rparr>"

text \<open>
  Claim C1 fails as stated for \<^verbatim>\<open>pollGitHubActions\<close>: with a one-minute budget, a
  build in progress and a status command that fails at the second (the last)
  attempt, no final status is ever returned and two queries are made, but the
  poll ends with the error of the command, not with the timeout error.
\<close>

theorem poll_timeout_counterexample:
  "(\<forall>n. \<not> github_js_final (status_cmd flaky n)) \<and>
   status_queries (snd (pollGitHubActions flaky ''u/r'' ''42'' 1)) = 2 \<and>
   fst (pollGitHubActions flaky ''u/r'' ''42'' 1) = Inl (Error ''Command failed: gh api'') \<and>
   fst (pollGitHubActions flaky ''u/r'' ''42'' 1) \<noteq> Inl (timeout_error 1)"
proof -
  have r: "runStatus (trim ''in_progress:null'') \<noteq> ''completed''"
    by code_simp
  have p: "\<not> github_js_final (status_cmd flaky n)" for n
    using r by (simp add: flaky_def github_js_final_def)
  have "int (status_queries (snd (pollGitHubActions flaky ''u/r'' ''42'' 1))) = 1 * 2"
    and "fst (pollGitHubActions flaky ''u/r'' ''42'' 1) =
           Inl (if (0::int) < 1 then (case status_cmd flaky (1 * 2) of
                                        Inl e \<Rightarrow> e | Inr out \<Rightarrow> timeout_error 1)
                else timeout_error 1)"
    using pollGitHubActions_exhausts [of 1 flaky "''u/r''" "''42''"] p by simp_all
  then have "status_queries (snd (pollGitHubActions flaky ''u/r'' ''42'' 1)) = 2"
    and "fst (pollGitHubActions flaky ''u/r'' ''42'' 1) = Inl (Error ''Command failed: gh api'')"
    by (simp_all add: flaky_def)
  then show ?thesis
    using p by (simp add: timeout_error_def)
qed

text \<open>
  Claim C1, amended. Let no query ever return a final status (a query may fail).
  For a budget \<open>T \<ge> 0\<close> and an interval \<open>I > 0\<close>, \<^verbatim>\<open>poll_github\<close> makes exactly
  \<open>T div I\<close> status queries, which is at most \<open>\<lceil>T / I\<rceil>\<close>, and then dies with the
  timeout message. \<^verbatim>\<open>pollGitHubActions\<close> with a budget of \<open>m \<ge> 0\<close> minutes (its
  interval is 30 seconds) makes exactly \<open>2 m = 60 m div 30\<close> status queries and
  then throws the timeout error, unless its last query itself failed: then it
  rethrows the error of that query.
\<close>

theorem poll_timeout:
  assumes "0 \<le> TIMEOUT_SECONDS args" and "0 < POLL_INTERVAL args"
      and "has_command env ''gh''"
      and "\<And>n. \<not> github_final (gh_api env n)"
      and "0 \<le> m"
      and "\<And>n. \<not> github_js_final (status_cmd jenv n)"
  shows "(\<exists>ts tr'. poll_github env args repo run_id tr =
            (Exited 1, tr' @ [Log ts (''FATAL: Build did not complete within '' @
                                       string_of_int (TIMEOUT_SECONDS args) @ '' seconds'')]) \<and>
          int (poll_queries tr') - int (poll_queries tr) =
            TIMEOUT_SECONDS args div POLL_INTERVAL args \<and>
          TIMEOUT_SECONDS args div POLL_INTERVAL args \<le>
            \<lceil>real_of_int (TIMEOUT_SECONDS args) / real_of_int (POLL_INTERVAL args)\<rceil>) \<and>
         int (status_queries (snd (pollGitHubActions jenv repo runId m))) = (m * 60) div 30 \<and>
         fst (pollGitHubActions jenv repo runId m) =
           Inl (if 0 < m then (case status_cmd jenv (m * 2) of
                                 Inl e \<Rightarrow> e | Inr out \<Rightarrow> timeout_error m)
                else timeout_error m)"
proof -
  obtain ts tr' where
    "poll_github env args repo run_id tr =
       (Exited 1, tr' @ [Log ts (''FATAL: Build did not complete within '' @
                                  string_of_int (TIMEOUT_SECONDS args) @ '' seconds'')])"
    "int (poll_queries tr') = int (poll_queries tr) + TIMEOUT_SECONDS args div POLL_INTERVAL args"
    using poll_github_times_out [OF assms(1-4)] by blast
  moreover have "(m * 60) div 30 = m * 2"
    by simp
  ultimately show ?thesis
    using floor_le_ceiling_div [of "TIMEOUT_SECONDS args" "POLL_INTERVAL args"]
      pollGitHubActions_exhausts [OF assms(5,6)]
    by auto
qed

theorem poll_timeout_witness:
  "(\<exists>ts tr'. poll_github quiet one_minute ''u/r'' ''42'' [] =
      (Exited 1, tr' @ [Log ts ''FATAL: Build did not complete within 60 seconds'']) \<and>
      poll_queries tr' = 2) \<and>
   status_queries (snd (pollGitHubActions in_progress ''u/r'' ''42'' 1)) = 2 \<and>
   fst (pollGitHubActions in_progress ''u/r'' ''42'' 1) =
     Inl (Error ''Build did not complete within 1 minutes'')"
proof -
  have a: "0 \<le> TIMEOUT_SECONDS one_minute" "0 < POLL_INTERVAL one_minute"
      "has_command quiet ''gh''"
    by (simp_all add: one_minute_def quiet_def)
  have b: "\<not> github_final (gh_api quiet n)" for n
    by (simp add: quiet_def github_final_def before_first_colon_def)
  have c: "\<not> github_js_final (status_cmd in_progress n)" for n
    by (simp add: in_progress_def github_js_final_def, code_simp)
  have d: "string_of_int (TIMEOUT_SECONDS one_minute) = ''60''"
      "TIMEOUT_SECONDS one_minute div POLL_INTERVAL one_minute = 2"
      "timeout_error 1 = Error ''Build did not complete within 1 minutes''"
    by (simp add: one_minute_def, code_simp, simp add: one_minute_def, code_simp)
  have e: "status_cmd in_progress 2 = Inr ''in_progress:null''"
    by (simp add: in_progress_def)
  show ?thesis
    using poll_timeout [OF a b _ c, where m = 1 and repo = "''u/r''" and run_id = "''42''"
        and tr = "[]" and runId = "''42''"]
    by (auto simp: d e)
qed

text \<open>What the \<^verbatim>\<open>try\<close> blocks make of a failed and of a succeeded run.\<close>

lemma github_try_block_failure:
  "status_cmd env j = Inr ''completed:failure'' \<Longrightarrow>
   \<exists>evs. github_try_block env runId M j =
            (Inl (Error ''Build failed with conclusion: failure''), evs) \<and>
          status_queries evs = 1"
proof -
  have "trim ''completed:failure'' = ''completed:failure''"
    and "runStatus ''completed:failure'' = ''completed''"
    and "conclusion ''completed:failure'' = Some ''failure''"
    and "or_undefined (Some ''failure'') = ''failure''"
    by code_simp+
  then show "status_cmd env j = Inr ''completed:failure'' \<Longrightarrow> ?thesis"
    by (simp add: github_try_block_def Let_def)
qed

lemma github_try_block_success:
  "status_cmd env j = Inr ''completed:success'' \<Longrightarrow>
   artifacts_cmd env j = Inr ''https://api.github.com/zip'' \<Longrightarrow>
   \<exists>evs. github_try_block env runId M j =
            (Inr (Some \<lparr> success = True, artifactUrl = ''https://api.github.com/zip'',
                          buildRef = runId \<rparr>), evs)"
proof -
  have "trim ''completed:success'' = ''completed:success''"
    and "runStatus ''completed:success'' = ''completed''"
    and "conclusion ''completed:success'' = Some ''success''"
    and "trim ''https://api.github.com/zip'' = ''https://api.github.com/zip''"
    by code_simp+
  then show "status_cmd env j = Inr ''completed:success'' \<Longrightarrow>
      artifacts_cmd env j = Inr ''https://api.github.com/zip'' \<Longrightarrow> ?thesis"
    by (simp add: github_try_block_def Let_def)
qed

definition canceled_build :: "int \<Rightarrow> js_error + eas_build" where
  "canceled_build n = Inr \<lparr> eas_status = ''canceled'', eas_buildUrl = None, eas_error = None \<rparr>"

lemma eas_try_block_canceled:
  "\<exists>evs. eas_try_block canceled_build buildId M j =
            (Inl (Error ''EAS build canceled: Unknown error''), evs) \<and> status_queries evs = 1"
  by (simp add: eas_try_block_def canceled_build_def Let_def truthy_def)

text \<open>
  Claim C2 is what \<^verbatim>\<open>poll_github\<close> does (it dies on the spot), but not what
  \<^verbatim>\<open>pollGitHubActions\<close> and \<^verbatim>\<open>pollEAS\<close> do: the error they throw for a failed build
  is thrown inside the \<^verbatim>\<open>try\<close> block, so the \<^verbatim>\<open>catch\<close> block of the loop takes it
  for a failed polling attempt, waits and queries again, up to the last attempt.
  With the default budget of 30 minutes a failed GitHub run is queried 60 times
  before its failure is reported, a canceled EAS build (one-minute budget) twice,
  and a run reported as failed and then as a success ends as a success.
\<close>

theorem failed_build_is_polled_again:
  "status_queries (snd (pollGitHubActions failed_build ''u/r'' ''42'' 30)) = 60 \<and>
   fst (pollGitHubActions failed_build ''u/r'' ''42'' 30) =
     Inl (Error ''Build failed with conclusion: failure'') \<and>
   fst (pollGitHubActions failed_then_success ''u/r'' ''42'' 1) =
     Inr \<lparr> success = True, artifactUrl = ''https://api.github.com/zip'', buildRef = ''42'' \<rparr> \<and>
   status_queries (snd (pollEAS canceled_build ''b7'' 1)) = 2 \<and>
   fst (pollEAS canceled_build ''b7'' 1) = Inl (Error ''EAS build canceled: Unknown error'')"
proof -
  let ?tb = "github_try_block failed_build ''42'' (30 * 2)"
  have tb: "\<exists>evs. ?tb j = (Inl (Error ''Build failed with conclusion: failure''), evs) \<and>
                  status_queries evs = 1" for j
    by (rule github_try_block_failure) (simp add: failed_build_def)
  have "status_queries (snd (poll_attempts ?tb 30 1 tr)) = status_queries tr + nat (30 * 2 + 1 - 1) \<and>
        fst (poll_attempts ?tb 30 1 tr) =
          Inl (if (1::int) \<le> 30 * 2
               then (case fst (?tb (30 * 2)) of Inl e \<Rightarrow> e | Inr r \<Rightarrow> timeout_error 30)
               else timeout_error 30)" for tr
  proof (rule poll_attempts_exhausts)
    fix j :: int
    show "status_queries (snd (?tb j)) = 1 \<and> (\<forall>r. fst (?tb j) \<noteq> Inr (Some r))"
      using tb [of j] by auto
  qed simp
  moreover have "fst (?tb (30 * 2)) = Inl (Error ''Build failed with conclusion: failure'')"
    using tb [of "30 * 2"] by auto
  ultimately have 1: "status_queries (snd (pollGitHubActions failed_build ''u/r'' ''42'' 30)) = 60"
    and 2: "fst (pollGitHubActions failed_build ''u/r'' ''42'' 30) =
              Inl (Error ''Build failed with conclusion: failure'')"
    by (simp_all add: pollGitHubActions_def)
  let ?ts = "github_try_block failed_then_success ''42'' (1 * 2)"
  obtain evs1 where a1: "?ts 1 = (Inl (Error ''Build failed with conclusion: failure''), evs1)"
    using github_try_block_failure [of failed_then_success 1 "''42''" "1 * 2"]
    by (auto simp: failed_then_success_def)
  obtain evs2 where a2: "?ts 2 =
      (Inr (Some \<lparr> success = True, artifactUrl = ''https://api.github.com/zip'',
                    buildRef = ''42'' \<rparr>), evs2)"
    using github_try_block_success [of failed_then_success 2 "''42''" "1 * 2"]
    by (auto simp: failed_then_success_def)
  have "fst (poll_attempts ?ts 1 1 tr) =
          Inr \<lparr> success = True, artifactUrl = ''https://api.github.com/zip'', buildRef = ''42'' \<rparr>"
    for tr
    using a1 a2 by (subst poll_attempts.simps, subst poll_attempts.simps) simp
  then have 3: "fst (pollGitHubActions failed_then_success ''u/r'' ''42'' 1) =
      Inr \<lparr> success = True, artifactUrl = ''https://api.github.com/zip'', buildRef = ''42'' \<rparr>"
    by (simp add: pollGitHubActions_def)
  let ?te = "eas_try_block canceled_build ''b7'' (1 * 2)"
  have "status_queries (snd (poll_attempts ?te 1 1 tr)) = status_queries tr + nat (1 * 2 + 1 - 1) \<and>
        fst (poll_attempts ?te 1 1 tr) =
          Inl (if (1::int) \<le> 1 * 2
               then (case fst (?te (1 * 2)) of Inl e \<Rightarrow> e | Inr r \<Rightarrow> timeout_error 1)
               else timeout_error 1)" for tr
  proof (rule poll_attempts_exhausts)
    fix j :: int
    show "status_queries (snd (?te j)) = 1 \<and> (\<forall>r. fst (?te j) \<noteq> Inr (Some r))"
      using eas_try_block_canceled [of "''b7''" "1 * 2" j] by auto
  qed simp
  moreover have "fst (?te (1 * 2)) = Inl (Error ''EAS build canceled: Unknown error'')"
    using eas_try_block_canceled [of "''b7''" "1 * 2" "1 * 2"] by auto
  ultimately have 4: "status_queries (snd (pollEAS canceled_build ''b7'' 1)) = 2"
    and 5: "fst (pollEAS canceled_build ''b7'' 1) = Inl (Error ''EAS build canceled: Unknown error'')"
    by (simp_all add: pollEAS_def)
  from 1 2 3 4 5 show ?thesis by blast
qed

section \<open>The shell side: download, installation and \<^verbatim>\<open>main\<close> of poll_and_deliver.sh\<close>

subsection \<open>download_artifact\<close>

text \<open>\<^verbatim>\<open>${identifier%/*}\<close> and \<^verbatim>\<open>${identifier#*/}\<close>: without a slash both leave the value as it is.\<close>

definition before_last_slash :: "string \<Rightarrow> string" where
  "before_last_slash s =
     (if CHR ''/'' \<in> set s then rev (tl (dropWhile (\<lambda>c. c \<noteq> CHR ''/'') (rev s))) else s)"

definition after_first_slash :: "string \<Rightarrow> string" where
  "after_first_slash s =
     (if CHR ''/'' \<in> set s then tl (dropWhile (\<lambda>c. c \<noteq> CHR ''/'') s) else s)"

definition last_line :: "string \<Rightarrow> string" where
  "last_line s = last (split_on (CHR 0x0A) s)"

definition download_script :: "'a sh_env_scheme \<Rightarrow> string" where
  "download_script env =
     (if is_file env (SCRIPT_DIR env @ ''/../ci/download_artifact.js'')
      then SCRIPT_DIR env @ ''/../ci/download_artifact.js''
      else ''../termux-orchestrator-ci/ci/download_artifact.js'')"

definition download_cmd :: "'a sh_env_scheme \<Rightarrow> deliver_args \<Rightarrow> string \<Rightarrow> string \<Rightarrow> string" where
  "download_cmd env args ci_provider identifier =
     ''node \"'' @ download_script env @ ''\" --provider \"'' @ ci_provider @ ''\" --out \"'' @
     OUTPUT_DIR args @ ''\"'' @
     (if ci_provider = ''github'' then
        '' --repo \"'' @ before_last_slash identifier @ ''\" --run-id \"'' @
        after_first_slash identifier @ ''\"''
      else '' --build-id \"'' @ identifier @ ''\"'')"

text \<open>
  The rest of the function once the download command has succeeded with output
  \<open>result\<close>: read the file name from the last line, or look for an \<^verbatim>\<open>.apk\<close>; test
  that the file is there; log and echo it.
\<close>

definition downloaded ::
  "'a sh_env_scheme \<Rightarrow> deliver_args \<Rightarrow> string \<Rightarrow> sh_event list \<Rightarrow> sh_result \<times> sh_event list" where
  "downloaded env args result tr =
     (case jq_file env (last_line result) of
        Some downloaded_file \<Rightarrow>
          if \<not> is_file env downloaded_file then
            die env (''Downloaded file not found: '' @ downloaded_file) tr
          else (Returned 0, sh_log env (''Downloaded: '' @ downloaded_file) tr @ [Echo downloaded_file])
      | None \<Rightarrow>
          if find_apk env (OUTPUT_DIR args) = [] then
            die env ''No APK files found after download''
              (sh_log env ''Failed to parse download result, searching for APK files...'' tr)
          else if \<not> is_file env (find_apk env (OUTPUT_DIR args)) then
            die env (''Downloaded file not found: '' @ find_apk env (OUTPUT_DIR args))
              (sh_log env ''Failed to parse download result, searching for APK files...'' tr)
          else
            (Returned 0,
             sh_log env (''Downloaded: '' @ find_apk env (OUTPUT_DIR args))
               (sh_log env ''Failed to parse download result, searching for APK files...'' tr) @
             [Echo (find_apk env (OUTPUT_DIR args))]))"

definition download_artifact ::
  "'a sh_env_scheme \<Rightarrow> deliver_args \<Rightarrow> string \<Rightarrow> string \<Rightarrow> sh_event list \<Rightarrow>
     sh_result \<times> sh_event list" where
  "download_artifact env args ci_provider identifier tr =
     (if \<not> is_file env (download_script env) then
        die env (''Download script not found: '' @ download_script env)
          (sh_log env (''Downloading artifact from '' @ ci_provider) tr)
      else if ci_provider \<noteq> ''github'' \<and> ci_provider \<noteq> ''codemagic'' \<and> ci_provider \<noteq> ''eas'' then
        die env (''Unknown CI provider: '' @ ci_provider)
          (sh_log env (''Downloading artifact from '' @ ci_provider) tr)
      else
        (case node_download env (download_cmd env args ci_provider identifier) of
           (status, result) \<Rightarrow>
             if status \<noteq> 0 then
               die env (''Download failed: '' @ result)
                 (sh_log env (''Running: '' @ download_cmd env args ci_provider identifier)
                    (sh_log env (''Downloading artifact from '' @ ci_provider) tr) @
                  [NodeDownload (download_cmd env args ci_provider identifier)])
             else
               downloaded env args result
                 (sh_log env (''Running: '' @ download_cmd env args ci_provider identifier)
                    (sh_log env (''Downloading artifact from '' @ ci_provider) tr) @
                  [NodeDownload (download_cmd env args ci_provider identifier)])))"

subsection \<open>Command substitution\<close>

text \<open>
  \<^verbatim>\<open>apk_file=$(download_artifact ...)\<close> takes everything the function writes to
  standard output, without the trailing newlines: the lines of \<^verbatim>\<open>log\<close> (which
  \<^verbatim>\<open>tee\<close> copies to standard output) as well as the line of the final \<^verbatim>\<open>echo\<close>.
\<close>

fun stdout_line :: "sh_event \<Rightarrow> string option" where
  "stdout_line (Log ts msg) = Some (''['' @ ts @ ''] '' @ msg)"
| "stdout_line (Echo s) = Some s"
| "stdout_line e = None"

definition captured :: "sh_event list \<Rightarrow> string" where
  "captured evs =
     rev (dropWhile (\<lambda>c. c = CHR 0x0A)
            (rev (concat (map (\<lambda>l. l @ [CHR 0x0A]) (List.map_filter stdout_line evs)))))"

subsection \<open>install_apk\<close>

definition has_device :: "string list option \<Rightarrow> bool" where
  "has_device output =
     (case output of None \<Rightarrow> False | Some ls \<Rightarrow> list_ex (\<lambda>l. endsWith l ''device'') ls)"

text \<open>The part from the test for \<^verbatim>\<open>adb\<close> to the end of the function.\<close>

definition install_apk_adb ::
  "'a sh_env_scheme \<Rightarrow> bool \<Rightarrow> string \<Rightarrow> sh_event list \<Rightarrow> sh_result \<times> sh_event list" where
  "install_apk_adb env no_notify apk_file tr =
     (let failed = (\<lambda>t. (Returned 1,
                          notify env no_notify ''APK Ready''
                            (''Manual installation required: '' @ apk_file) ''view''
                            (sh_log env (''Automatic installation failed. APK saved to: '' @ apk_file)
                               t))) in
      if has_command env ''adb'' then
        (if has_device (adb_devices env (length tr)) then
           (if adb_install env (Suc (Suc (length tr))) apk_file then
              (Returned 0,
               sh_log env ''APK installed via ADB''
                 (sh_log env ''Installing via ADB...'' (tr @ [AdbDevices]) @ [AdbInstall apk_file]))
            else
              failed (sh_log env ''ADB install failed''
                        (sh_log env ''Installing via ADB...'' (tr @ [AdbDevices]) @
                         [AdbInstall apk_file])))
         else failed (sh_log env ''No ADB devices connected'' (tr @ [AdbDevices])))
      else failed tr)"

definition install_apk ::
  "'a sh_env_scheme \<Rightarrow> bool \<Rightarrow> string \<Rightarrow> sh_event list \<Rightarrow> sh_result \<times> sh_event list" where
  "install_apk env no_notify apk_file tr =
     (let tr1 = sh_log env (''Installing APK: '' @ apk_file) tr @ [Chmod apk_file] in
      if has_command env ''termux-open'' then
        (if termux_open env (Suc (length tr1)) apk_file then
           (Returned 0,
            sh_log env ''APK opened for installation''
              (sh_log env ''Installing via termux-open...'' tr1 @ [TermuxOpenApk apk_file]))
         else
           install_apk_adb env no_notify apk_file
             (sh_log env ''termux-open failed, trying adb...''
                (sh_log env ''Installing via termux-open...'' tr1 @ [TermuxOpenApk apk_file])))
      else install_apk_adb env no_notify apk_file tr1)"

subsection \<open>main\<close>

text \<open>From \<^verbatim>\<open># Get file info\<close> to the end, with the value of \<^verbatim>\<open>apk_file\<close>.\<close>

definition deliver ::
  "'a sh_env_scheme \<Rightarrow> deliver_args \<Rightarrow> string \<Rightarrow> sh_event list \<Rightarrow> sh_result \<times> sh_event list" where
  "deliver env args apk_file tr =
     (if fs env apk_file = None then (Exited 1, tr @ [Du apk_file])
      else
        (let file_size = du_h env apk_file;
             tr1 = sh_log env (''APK downloaded: '' @ apk_file @ '' ('' @ file_size @ '')'')
                     (tr @ [Du apk_file]) in
         if AUTO_INSTALL args then
           (case install_apk env (NO_NOTIFY args) apk_file
                   (notify env (NO_NOTIFY args) ''Installing''
                      (''Installing APK ('' @ file_size @ '')...'') [] tr1) of
              (Returned 0, tr2) \<Rightarrow>
                (Exited 0,
                 sh_log env ''Delivery process finished''
                   (sh_log env ''Delivery completed successfully''
                      (notify env (NO_NOTIFY args) ''Installation Complete''
                         ''App installed successfully!'' [] tr2)))
            | (r, tr2) \<Rightarrow>
                (Exited 0,
                 sh_log env ''Delivery process finished''
                   (sh_log env ''Automatic installation failed, but APK is available''
                      (notify env (NO_NOTIFY args) ''Installation Failed''
                         (''Manual installation required: '' @ apk_file) [] tr2))))
         else
           (Exited 0,
            sh_log env ''Delivery process finished''
              (sh_log env ''Download completed, auto-install disabled''
                 (notify env (NO_NOTIFY args) ''Download Complete''
                    (''APK ready: '' @ apk_file @ '' ('' @ file_size @ '')'') ''view'' tr1)))))"

text \<open>The \<^verbatim>\<open>case\<close> that polls: the provider's check of its arguments, then its poll.\<close>

definition poll_provider ::
  "'a sh_env_scheme \<Rightarrow> deliver_args \<Rightarrow> sh_event list \<Rightarrow> sh_result \<times> sh_event list" where
  "poll_provider env args tr =
     (if CI_PROVIDER args = ''github'' then
        (if REPO args = [] \<or> RUN_ID args = [] then die env ''GitHub requires --repo and --run-id'' tr
         else poll_github env args (REPO args) (RUN_ID args) tr)
      else if CI_PROVIDER args = ''codemagic'' then
        (if BUILD_ID args = [] then die env ''Codemagic requires --build-id'' tr
         else poll_codemagic env args (BUILD_ID args) tr)
      else if CI_PROVIDER args = ''eas'' then
        (if BUILD_ID args = [] then die env ''EAS requires --build-id'' tr
         else poll_eas env args (BUILD_ID args) tr)
      else die env (''Unknown CI provider: '' @ CI_PROVIDER args) tr)"

definition IDENTIFIER :: "deliver_args \<Rightarrow> string" where
  "IDENTIFIER args =
     (if CI_PROVIDER args = ''github'' then REPO args @ ''/'' @ RUN_ID args else BUILD_ID args)"

text \<open>
  \<^verbatim>\<open>main\<close> after the arguments are parsed. The script runs under \<^verbatim>\<open>set -e\<close>: a
  \<^verbatim>\<open>die\<close> in the poll, a failed command substitution and a failed \<^verbatim>\<open>du\<close> end it
  with status 1; reaching the end of \<^verbatim>\<open>main\<close> ends it with status 0.
\<close>

definition poll_and_deliver_main ::
  "'a sh_env_scheme \<Rightarrow> deliver_args \<Rightarrow> sh_result \<times> sh_event list" where
  "poll_and_deliver_main env args =
     (if CI_PROVIDER args = [] then die env ''CI provider required. Use --ci github|codemagic|eas'' []
      else
        (case poll_provider env args
                (notify env (NO_NOTIFY args) ''Build Polling''
                   (''Waiting for '' @ CI_PROVIDER args @ '' build to complete...'') []
                   (sh_log env (''Auto Install: '' @ bool_word (AUTO_INSTALL args))
                      (sh_log env (''Output Directory: '' @ OUTPUT_DIR args)
                         (sh_log env (''CI Provider: '' @ CI_PROVIDER args)
                            (sh_log env ''Starting delivery process...'' []))))) of
           (Returned 0, tr) \<Rightarrow>
             (let tr1 = notify env (NO_NOTIFY args) ''Build Complete'' ''Downloading APK...'' [] tr in
              case download_artifact env args (CI_PROVIDER args) (IDENTIFIER args) tr1 of
                (Returned 0, tr2) \<Rightarrow> deliver env args (captured (drop (length tr1) tr2)) tr2
              | (r, tr2) \<Rightarrow> (Exited 1, tr2))
         | (r, tr) \<Rightarrow> (Exited 1, tr)))"

section \<open>The shell side: auto_install.sh\<close>

record install_args =
  APK_FILE :: string
  FORCE_ADB :: bool
  NO_PERMISSIONS :: bool

fun contains :: "string \<Rightarrow> string \<Rightarrow> bool" where
  "contains [] sub = (sub = [])"
| "contains (c # cs) sub = (startsWith (c # cs) sub \<or> contains cs sub)"

definition check_apk_file ::
  "'a sh_env_scheme \<Rightarrow> string \<Rightarrow> sh_event list \<Rightarrow> sh_result \<times> sh_event list" where
  "check_apk_file env apk_file tr =
     (if \<not> is_file env apk_file then die env (''APK file not found: '' @ apk_file) tr
      else if \<not> readable env apk_file then die env (''APK file not readable: '' @ apk_file) tr
      else
        (Returned 0,
         sh_log env (''APK file: '' @ apk_file @ '' ('' @ du_h env apk_file @ '')'')
           ((if \<not> file_says_android env apk_file
             then sh_log env (''Warning: File may not be a valid APK: '' @ apk_file)
                    (tr @ [FileCmd apk_file])
             else tr @ [FileCmd apk_file]) @ [Du apk_file])))"

definition set_permissions ::
  "'a sh_env_scheme \<Rightarrow> install_args \<Rightarrow> sh_event list \<Rightarrow> sh_event list" where
  "set_permissions env args tr =
     (if NO_PERMISSIONS args then sh_log env ''Skipping permission setup'' tr
      else if chmod_ok env (APK_FILE args) then
        sh_log env (''Set permissions 644 on '' @ APK_FILE args)
          (sh_log env ''Setting file permissions...'' tr @ [Chmod (APK_FILE args)])
      else
        sh_log env (''Warning: Failed to set permissions on '' @ APK_FILE args)
          (sh_log env ''Setting file permissions...'' tr @ [Chmod (APK_FILE args)]))"

text \<open>The functions of the chain return 0 (\<open>True\<close>) or 1 (\<open>False\<close>).\<close>

definition install_via_termux_open ::
  "'a sh_env_scheme \<Rightarrow> string \<Rightarrow> sh_event list \<Rightarrow> bool \<times> sh_event list" where
  "install_via_termux_open env apk_file tr =
     (if \<not> has_command env ''termux-open'' then (False, sh_log env ''termux-open not available'' tr)
      else if termux_open env (Suc (length tr)) apk_file then
        (True,
         sh_log env ''APK opened with system installer''
           (sh_log env ''Installing via termux-open...'' tr @ [TermuxOpenApk apk_file]))
      else
        (False,
         sh_log env ''termux-open failed''
           (sh_log env ''Installing via termux-open...'' tr @ [TermuxOpenApk apk_file])))"

definition log_lines :: "'a sh_env_scheme \<Rightarrow> string list \<Rightarrow> sh_event list \<Rightarrow> sh_event list" where
  "log_lines env ls tr = foldl (\<lambda>t l. sh_log env (''  '' @ l) t) tr ls"

definition check_adb_status ::
  "'a sh_env_scheme \<Rightarrow> sh_event list \<Rightarrow> bool \<times> sh_event list" where
  "check_adb_status env tr =
     (if \<not> has_command env ''adb'' then (False, sh_log env ''ADB not available'' tr)
      else
        (case adb_version env (length tr) of
           None \<Rightarrow> (False, sh_log env ''ADB command failed'' (tr @ [AdbVersion]))
         | Some v \<Rightarrow>
            (case adb_devices env (Suc (Suc (length tr))) of
               None \<Rightarrow>
                 (False,
                  sh_log env ''Failed to get ADB device list''
                    (sh_log env (''ADB available: '' @ v) (tr @ [AdbVersion]) @ [AdbDevices]))
             | Some ls \<Rightarrow>
                 (let tr' = log_lines env ls
                              (sh_log env ''ADB devices output:''
                                 (sh_log env (''ADB available: '' @ v) (tr @ [AdbVersion]) @
                                  [AdbDevices])) in
                  if list_ex (\<lambda>l. endsWith l ''device'') ls then
                    (True, sh_log env ''Found authorized ADB device'' tr')
                  else if list_ex (\<lambda>l. contains l ''unauthorized'') ls then
                    (False,
                     sh_log env
                       ''Device found but unauthorized - check phone for ADB authorization dialog''
                       tr')
                  else (False, sh_log env ''No ADB devices connected'' tr')))))"

definition install_via_adb ::
  "'a sh_env_scheme \<Rightarrow> string \<Rightarrow> sh_event list \<Rightarrow> bool \<times> sh_event list" where
  "install_via_adb env apk_file tr =
     (case check_adb_status env tr of
        (False, tr') \<Rightarrow> (False, tr')
      | (True, tr') \<Rightarrow>
          if adb_install env (Suc (length tr')) apk_file then
            (True,
             sh_log env ''APK installed successfully via ADB''
               (sh_log env ''Installing via ADB...'' tr' @ [AdbInstall apk_file]))
          else
            (False,
             sh_log env ''ADB install failed''
               (sh_log env ''Installing via ADB...'' tr' @ [AdbInstall apk_file])))"

definition manual_fallback ::
  "'a sh_env_scheme \<Rightarrow> string \<Rightarrow> sh_event list \<Rightarrow> bool \<times> sh_event list" where
  "manual_fallback env apk_file tr =
     (let tr1 = sh_log env ''Attempting manual fallback...'' tr;
          apk_dir = sh_dirname env apk_file;
          tr2 = (if has_command env ''termux-open'' then
                   (if termux_open env (Suc (length tr1)) apk_dir then
                      sh_log env (''Opened file manager to: '' @ apk_dir)
                        (sh_log env ''Opening file manager...'' tr1 @ [TermuxOpenDir apk_dir])
                    else
                      sh_log env ''Failed to open file manager''
                        (sh_log env ''Opening file manager...'' tr1 @ [TermuxOpenDir apk_dir]))
                 else tr1);
          tr3 = (if has_command env ''termux-notification'' then
                   tr2 @ [Notification ''Manual Installation Required''
                            (''APK: '' @ sh_basename env apk_file) []]
                 else tr2) in
      (False, tr3 @ [ManualInstructions apk_file]))"

definition notified ::
  "'a sh_env_scheme \<Rightarrow> string \<Rightarrow> string \<Rightarrow> sh_event list \<Rightarrow> sh_event list" where
  "notified env title content tr =
     (if has_command env ''termux-notification'' then tr @ [Notification title content []] else tr)"

text \<open>The chain from \<^verbatim>\<open># Try termux-open first\<close> to the end of \<^verbatim>\<open>main\<close>.\<close>

definition install_chain ::
  "'a sh_env_scheme \<Rightarrow> string \<Rightarrow> sh_event list \<Rightarrow> sh_result \<times> sh_event list" where
  "install_chain env apk_file tr =
     (case install_via_termux_open env apk_file tr of
        (True, tr1) \<Rightarrow>
          (Exited 0,
           notified env ''APK Installation Started''
             (sh_basename env apk_file @ '' - Follow system prompts to complete'')
             (sh_log env ''Installation initiated successfully via termux-open'' tr1))
      | (False, tr1) \<Rightarrow>
         (case install_via_adb env apk_file tr1 of
            (True, tr2) \<Rightarrow>
              (Exited 0,
               notified env ''APK Installed'' (sh_basename env apk_file @ '' - Installed via ADB'')
                 (sh_log env ''Installation completed successfully via ADB'' tr2))
          | (False, tr2) \<Rightarrow>
              (Exited 1,
               snd (manual_fallback env apk_file
                      (sh_log env ''All automatic installation methods failed'' tr2)))))"

definition auto_install_main ::
  "'a sh_env_scheme \<Rightarrow> install_args \<Rightarrow> sh_result \<times> sh_event list" where
  "auto_install_main env args =
     (if APK_FILE args = [] then die env ''APK file required. Use: auto_install.sh <apk_file>'' []
      else
        (case check_apk_file env (APK_FILE args)
                (sh_log env (''Force ADB: '' @ bool_word (FORCE_ADB args))
                   (sh_log env (''APK: '' @ APK_FILE args)
                      (sh_log env ''Starting APK installation process...'' []))) of
           (Exited c, tr) \<Rightarrow> (Exited c, tr)
         | (Returned c, tr) \<Rightarrow>
            (if FORCE_ADB args then
               (case install_via_adb env (APK_FILE args)
                       (sh_log env ''Forcing ADB installation...'' (set_permissions env args tr)) of
                  (True, tr1) \<Rightarrow>
                    (Exited 0, sh_log env ''Installation completed successfully via ADB'' tr1)
                | (False, tr1) \<Rightarrow>
                    install_chain env (APK_FILE args)
                      (sh_log env ''Forced ADB installation failed, trying other methods...'' tr1))
             else install_chain env (APK_FILE args) (set_permissions env args tr))))"

text \<open>The installation methods a run attempted, in order.\<close>

datatype install_method = SystemInstaller | DeviceBridge | ManualFallback

fun method_of :: "sh_event \<Rightarrow> install_method option" where
  "method_of (TermuxOpenApk f) = Some SystemInstaller"
| "method_of (AdbInstall f) = Some DeviceBridge"
| "method_of (ManualInstructions f) = Some ManualFallback"
| "method_of e = None"

fun methods :: "sh_event list \<Rightarrow> install_method list" where
  "methods [] = []"
| "methods (e # es) = (case method_of e of None \<Rightarrow> methods es | Some m \<Rightarrow> m # methods es)"

section \<open>Properties of the delivery chain\<close>

lemma methods_append [simp]: "methods (xs @ ys) = methods xs @ methods ys"
  by (induction xs) (simp_all split: option.splits)

lemma methods_single [simp]:
  "methods [TermuxOpenApk f] = [SystemInstaller]"
  "methods [AdbInstall f] = [DeviceBridge]"
  "methods [ManualInstructions f] = [ManualFallback]"
  "methods [Log ts msg] = []"
  "methods [Notification t c a] = []"
  "methods [TermuxOpenDir d] = []"
  "methods [AdbVersion] = []"
  "methods [AdbDevices] = []"
  "methods [Chmod f] = []"
  "methods [FileCmd f] = []"
  "methods [Du f] = []"
  by simp_all

lemma methods_sh_log [simp]: "methods (sh_log env msg tr) = methods tr"
  by (simp add: sh_log_def)

lemma methods_notified [simp]: "methods (notified env t c tr) = methods tr"
  by (simp add: notified_def)

lemma methods_log_lines [simp]: "methods (log_lines env ls tr) = methods tr"
  unfolding log_lines_def by (induction ls arbitrary: tr) simp_all

lemma methods_die [simp]: "methods (snd (die env msg tr)) = methods tr"
  by (simp add: die_def)

lemma methods_check_apk_file [simp]: "methods (snd (check_apk_file env f tr)) = methods tr"
  by (simp add: check_apk_file_def)

lemma methods_set_permissions [simp]: "methods (set_permissions env args tr) = methods tr"
  by (simp add: set_permissions_def)








definition apk_ok :: "'a sh_env_scheme \<Rightarrow> install_args \<Rightarrow> bool" where
  "apk_ok env args =
     (APK_FILE args \<noteq> [] \<and> is_file env (APK_FILE args) \<and> readable env (APK_FILE args))"

text \<open>A phone without \<^verbatim>\<open>termux-open\<close> and with an authorized device on \<^verbatim>\<open>adb\<close>; the
  downloaded file is there, and empty.\<close>

definition phone :: sh_env where
  "phone =
     quiet \<lparr> has_command := (\<lambda>c. c \<noteq> ''termux-open''),
             fs := [''/dl/app.apk'' \<mapsto> \<lparr>size_bytes = 0, isDirectory = False\<rparr>],
             adb_version := (\<lambda>n. Some ''1.0.41''),
             adb_devices := (\<lambda>n. Some [''List of devices attached'', ''emulator-5554 device'']),
             adb_install := (\<lambda>n p. True) \<rparr>"


definition plain_install :: install_args where
  "plain_install = \<lparr> APK_FILE = ''/dl/app.apk'', FORCE_ADB = False, NO_PERMISSIONS = False \<rparr>"








section \<open>Properties of the pipeline drivers\<close>

subsection \<open>The stages of poll_and_deliver.sh\<close>

definition polled :: "'a sh_env_scheme \<Rightarrow> deliver_args \<Rightarrow> sh_result \<times> sh_event list" where
  "polled env args =
     poll_provider env args
       (notify env (NO_NOTIFY args) ''Build Polling''
          (''Waiting for '' @ CI_PROVIDER args @ '' build to complete...'') []
          (sh_log env (''Auto Install: '' @ bool_word (AUTO_INSTALL args))
             (sh_log env (''Output Directory: '' @ OUTPUT_DIR args)
                (sh_log env (''CI Provider: '' @ CI_PROVIDER args)
                   (sh_log env ''Starting delivery process...'' [])))))"

definition before_download :: "'a sh_env_scheme \<Rightarrow> deliver_args \<Rightarrow> sh_event list" where
  "before_download env args =
     notify env (NO_NOTIFY args) ''Build Complete'' ''Downloading APK...'' [] (snd (polled env args))"

definition fetched :: "'a sh_env_scheme \<Rightarrow> deliver_args \<Rightarrow> sh_result \<times> sh_event list" where
  "fetched env args =
     download_artifact env args (CI_PROVIDER args) (IDENTIFIER args) (before_download env args)"

text \<open>The value of \<^verbatim>\<open>apk_file\<close> in \<^verbatim>\<open>main\<close>.\<close>

definition apk_file :: "'a sh_env_scheme \<Rightarrow> deliver_args \<Rightarrow> string" where
  "apk_file env args = captured (drop (length (before_download env args)) (snd (fetched env args)))"

lemma main_stages:
  "poll_and_deliver_main env args =
     (if CI_PROVIDER args = [] then die env ''CI provider required. Use --ci github|codemagic|eas'' []
      else if fst (polled env args) \<noteq> Returned 0 then (Exited 1, snd (polled env args))
      else if fst (fetched env args) \<noteq> Returned 0 then (Exited 1, snd (fetched env args))
      else deliver env args (apk_file env args) (snd (fetched env args)))"
proof -
  obtain r tr where p: "polled env args = (r, tr)"
    by (cases "polled env args")
  obtain r' tr' where f: "fetched env args = (r', tr')"
    by (cases "fetched env args")
  have f': "download_artifact env args (CI_PROVIDER args) (IDENTIFIER args)
              (notify env (NO_NOTIFY args) ''Build Complete'' ''Downloading APK...'' [] tr) = (r', tr')"
    using f p by (simp add: fetched_def before_download_def)
  show ?thesis
    using p f f' unfolding poll_and_deliver_main_def polled_def [symmetric]
    by (auto simp: Let_def apk_file_def before_download_def
             split: sh_result.splits nat.splits prod.splits)
qed


lemma install_chain_exit:
  "fst (install_chain env f tr) = Exited 0 \<or> fst (install_chain env f tr) = Exited 1"
  by (auto simp: install_chain_def split: prod.splits bool.splits)

subsection \<open>Exit codes\<close>







text \<open>
  A run on EAS: the build is finished, the download script writes an empty
  \<^verbatim>\<open>/dl/app.apk\<close>, and neither \<^verbatim>\<open>termux-open\<close> nor \<^verbatim>\<open>adb\<close> nor
  \<^verbatim>\<open>termux-notification\<close> is installed. In \<open>stranded\<close> there is, besides, an
  empty file under the name that \<^verbatim>\<open>apk_file\<close> gets in this run: the three log
  lines of \<^verbatim>\<open>download_artifact\<close> followed by the path.
\<close>

definition eas_run :: deliver_args where
  "eas_run =
     \<lparr> CI_PROVIDER = ''eas'', REPO = [], RUN_ID = [], BUILD_ID = ''b7'', OUTPUT_DIR = ''/dl'',
       AUTO_INSTALL = True, NO_NOTIFY = True, TIMEOUT_SECONDS = 1800, POLL_INTERVAL = 30 \<rparr>"

definition captured_text :: string where
  "captured_text =
     ''[2024-01-15 10:30:00] Downloading artifact from eas\<newline>'' @
     ''[2024-01-15 10:30:00] Running: node \"/home/delivery/../ci/download_artifact.js\" '' @
     ''--provider \"eas\" --out \"/dl\" --build-id \"b7\"\<newline>'' @
     ''[2024-01-15 10:30:00] Downloaded: /dl/app.apk\<newline>'' @
     ''/dl/app.apk''"

definition eas_built :: sh_env where
  "eas_built =
     quiet \<lparr> has_command := (\<lambda>c. c = ''eas''),
             eas_view_status := (\<lambda>n. Some ''finished''),
             fs := [''/home/delivery/../ci/download_artifact.js'' \<mapsto>
                      \<lparr>size_bytes = 9000, isDirectory = False\<rparr>,
                    ''/dl/app.apk'' \<mapsto> \<lparr>size_bytes = 0, isDirectory = False\<rparr>],
             node_download := (\<lambda>c. (0, ''{}'')), jq_file := (\<lambda>l. Some ''/dl/app.apk'') \<rparr>"

definition stranded :: sh_env where
  "stranded = eas_built \<lparr> fs := (fs eas_built)(captured_text \<mapsto> \<lparr>size_bytes = 0, isDirectory = False\<rparr>) \<rparr>"





subsection \<open>What is fetched and installed, and when\<close>

text \<open>
  The events of a run that fetch an artifact or hand a file to an installer, and
  the condition under which a poll step reports success at attempt \<open>n\<close>.
\<close>

fun acts :: "sh_event \<Rightarrow> bool" where
  "acts (NodeDownload c) = True"
| "acts (TermuxOpenApk f) = True"
| "acts (AdbInstall f) = True"
| "acts e = False"

definition actions :: "sh_event list \<Rightarrow> sh_event list" where
  "actions tr = filter acts tr"

definition build_succeeded :: "'a sh_env_scheme \<Rightarrow> string \<Rightarrow> int \<Rightarrow> bool" where
  "build_succeeded env provider n =
     (if provider = ''github'' then
        (case gh_api env n of
           None \<Rightarrow> False
         | Some info \<Rightarrow> before_first_colon info = ''completed'' \<and> after_last_colon info = ''success'')
      else if provider = ''codemagic'' then
        (case curl_build env n of
           None \<Rightarrow> False
         | Some response \<Rightarrow>
             jq_status env response = Some ''finished'' \<and> jq_success env response = Some ''true'')
      else provider = ''eas'' \<and> eas_view_status env n = Some ''finished'')"

lemma actions_append [simp]: "actions (xs @ ys) = actions xs @ actions ys"
  by (simp add: actions_def)

lemma actions_simps [simp]:
  "actions [] = []"
  "actions [NodeDownload c] = [NodeDownload c]"
  "actions [TermuxOpenApk f] = [TermuxOpenApk f]"
  "actions [AdbInstall f] = [AdbInstall f]"
  "actions [Log ts msg] = []"
  "actions [Echo s] = []"
  "actions [PollQuery] = []"
  "actions [Sleep i] = []"
  "actions [Notification t c a] = []"
  "actions [Du f] = []"
  "actions [Chmod f] = []"
  "actions [FileCmd f] = []"
  "actions [TermuxOpenDir d] = []"
  "actions [AdbVersion] = []"
  "actions [AdbDevices] = []"
  "actions [ManualInstructions f] = []"
  by (simp_all add: actions_def)

lemma actions_sh_log [simp]: "actions (sh_log env msg tr) = actions tr"
  by (simp add: sh_log_def)

lemma actions_die [simp]: "actions (snd (die env msg tr)) = actions tr"
  by (simp add: die_def)

lemma actions_notify [simp]: "actions (notify env n t m a tr) = actions tr"
  by (simp add: notify_def)

lemma actions_notified [simp]: "actions (notified env t c tr) = actions tr"
  by (simp add: notified_def)

lemma actions_log_lines [simp]: "actions (log_lines env ls tr) = actions tr"
  unfolding log_lines_def by (induction ls arbitrary: tr) simp_all

lemma in_actions: "acts e \<Longrightarrow> e \<in> set tr \<Longrightarrow> e \<in> set (actions tr)"
  by (simp add: actions_def)

lemma github_step_actions [simp]: "actions (snd (github_step env n t)) = actions t"
  by (simp add: github_step_def Let_def split: option.splits)

lemma codemagic_step_actions [simp]: "actions (snd (codemagic_step env n t)) = actions t"
  by (simp add: codemagic_step_def Let_def split: option.splits)

lemma eas_step_actions [simp]: "actions (snd (eas_step env n t)) = actions t"
  by (simp add: eas_step_def Let_def split: option.splits)

lemma github_step_succeeded:
  "fst (github_step env n t) = Succeeded \<Longrightarrow> build_succeeded env ''github'' n"
  by (auto simp: github_step_def build_succeeded_def Let_def split: option.splits if_splits)

lemma codemagic_step_succeeded:
  "fst (codemagic_step env n t) = Succeeded \<Longrightarrow> build_succeeded env ''codemagic'' n"
  by (auto simp: codemagic_step_def build_succeeded_def Let_def split: option.splits if_splits)

lemma eas_step_succeeded:
  "fst (eas_step env n t) = Succeeded \<Longrightarrow> build_succeeded env ''eas'' n"
  by (auto simp: eas_step_def build_succeeded_def Let_def split: option.splits if_splits)

text \<open>The loop adds no action, and it returns only from a step that succeeded.\<close>

lemma poll_loop_actions:
  assumes "\<And>n t. actions (snd (step n t)) = actions t"
  shows "actions (snd (poll_loop env step args m a tr)) = actions tr"
  using assms
proof (induction env step args m a tr rule: poll_loop.induct)
  case (1 env step args m a tr)
  let ?t = "sh_log env (''Poll attempt '' @ string_of_int (a + 1) @ ''/'' @ string_of_int m) tr"
  obtain r t' where s: "step (a + 1) ?t = (r, t')"
    by (cases "step (a + 1) ?t")
  have t': "actions t' = actions tr"
    using "1.prems" [of "a + 1" ?t] s by simp
  show ?case
  proof (cases "a < m")
    case False
    then show ?thesis
      by (subst poll_loop.simps) simp
  next
    case True
    show ?thesis
    proof (cases r)
      case Again
      have "actions (snd (poll_loop env step args m (a + 1) (t' @ [Sleep (POLL_INTERVAL args)]))) =
              actions (t' @ [Sleep (POLL_INTERVAL args)])"
        using "1.IH" [OF True s [symmetric] Again "1.prems"] by simp
      then show ?thesis
        using True s Again t' by (subst poll_loop.simps) simp
    qed (use True s t' in \<open>subst poll_loop.simps, simp\<close>)+
  qed
qed

lemma poll_loop_returned:
  "fst (poll_loop env step args m a tr) = Returned c \<Longrightarrow>
   c = 0 \<and> (\<exists>n t. a < n \<and> n \<le> m \<and> fst (step n t) = Succeeded)"
proof (induction env step args m a tr rule: poll_loop.induct)
  case (1 env step args m a tr)
  let ?t = "sh_log env (''Poll attempt '' @ string_of_int (a + 1) @ ''/'' @ string_of_int m) tr"
  obtain r t' where s: "step (a + 1) ?t = (r, t')"
    by (cases "step (a + 1) ?t")
  have lt: "a < m"
    using "1.prems" by (subst (asm) poll_loop.simps) (auto simp: die_def split: if_splits)
  show ?case
  proof (cases r)
    case Succeeded
    have "c = 0"
      using "1.prems" lt s Succeeded by (subst (asm) poll_loop.simps) simp
    moreover have "fst (step (a + 1) ?t) = Succeeded"
      using s Succeeded by simp
    ultimately show ?thesis
      using lt by (intro conjI exI [of _ "a + 1"] exI [of _ ?t]) simp_all
  next
    case Died
    then show ?thesis
      using "1.prems" lt s by (subst (asm) poll_loop.simps) simp
  next
    case Again
    have "fst (poll_loop env step args m (a + 1) (t' @ [Sleep (POLL_INTERVAL args)])) = Returned c"
      using "1.prems" lt s Again by (subst (asm) poll_loop.simps) simp
    then obtain n t where "c = 0" "a + 1 < n" "n \<le> m" "fst (step n t) = Succeeded"
      using "1.IH" [OF lt s [symmetric] Again] by blast
    then show ?thesis
      by (intro conjI exI [of _ n] exI [of _ t]) simp_all
  qed
qed

lemma poll_with_actions:
  "(\<And>n t. actions (snd (step n t)) = actions t) \<Longrightarrow>
   actions (snd (poll_with env step args tr)) = actions tr"
  by (simp add: poll_with_def poll_loop_actions)

lemma poll_with_returned:
  "fst (poll_with env step args tr) = Returned c \<Longrightarrow>
   c = 0 \<and> (\<exists>n t. 0 < n \<and> fst (step n t) = Succeeded)"
  using poll_loop_returned [of env step args "sh_div (TIMEOUT_SECONDS args) (POLL_INTERVAL args)" 0 tr c]
  by (auto simp: poll_with_def split: if_splits)

lemma poll_provider_actions [simp]: "actions (snd (poll_provider env args tr)) = actions tr"
  by (simp add: poll_provider_def poll_github_def poll_codemagic_def poll_eas_def
        poll_with_actions)

lemma poll_provider_returned:
  assumes "fst (poll_provider env args tr) = Returned c"
  shows "\<exists>n. 0 < n \<and> build_succeeded env (CI_PROVIDER args) n"
proof -
  consider (g) "CI_PROVIDER args = ''github''"
      "fst (poll_with env (github_step env) args
              (sh_log env (''Polling GitHub Actions: '' @ REPO args @ '' run '' @ RUN_ID args) tr)) =
         Returned c"
    | (c) "CI_PROVIDER args = ''codemagic''"
      "fst (poll_with env (codemagic_step env) args
              (sh_log env (''Polling Codemagic: build '' @ BUILD_ID args) tr)) = Returned c"
    | (e) "CI_PROVIDER args = ''eas''"
      "fst (poll_with env (eas_step env) args
              (sh_log env (''Polling EAS: build '' @ BUILD_ID args) tr)) = Returned c"
    using assms
    by (auto simp: poll_provider_def poll_github_def poll_codemagic_def poll_eas_def die_def
             split: if_splits)
  then show ?thesis
  proof cases
    case g
    then show ?thesis
      using poll_with_returned [OF g(2)] github_step_succeeded [of env] by auto
  next
    case c
    then show ?thesis
      using poll_with_returned [OF c(2)] codemagic_step_succeeded [of env] by auto
  next
    case e
    then show ?thesis
      using poll_with_returned [OF e(2)] eas_step_succeeded [of env] by auto
  qed
qed

lemma polled_actions: "actions (snd (polled env args)) = []"
  by (simp add: polled_def)

lemma polled_returned:
  "fst (polled env args) = Returned c \<Longrightarrow> \<exists>n. 0 < n \<and> build_succeeded env (CI_PROVIDER args) n"
  unfolding polled_def by (rule poll_provider_returned)

lemma downloaded_actions [simp]: "actions (snd (downloaded env args result tr)) = actions tr"
  by (simp add: downloaded_def split: option.splits)

lemma fetched_actions:
  "set (actions (snd (fetched env args))) \<subseteq>
     {NodeDownload (download_cmd env args (CI_PROVIDER args) (IDENTIFIER args))}"
  by (auto simp: fetched_def before_download_def download_artifact_def polled_actions
           split: prod.splits if_splits)

lemma install_apk_adb_actions:
  "set (actions (snd (install_apk_adb env n f tr))) \<subseteq> set (actions tr) \<union> {AdbInstall f}"
  by (auto simp: install_apk_adb_def Let_def)

lemma install_apk_actions:
  "set (actions (snd (install_apk env n f tr))) \<subseteq>
     set (actions tr) \<union> {TermuxOpenApk f, AdbInstall f}"
proof -
  let ?tr1 = "sh_log env (''Installing APK: '' @ f) tr @ [Chmod f]"
  let ?tr2 = "sh_log env ''termux-open failed, trying adb...''
                (sh_log env ''Installing via termux-open...'' ?tr1 @ [TermuxOpenApk f])"
  have a1: "set (actions (snd (install_apk_adb env n f ?tr1))) \<subseteq>
              set (actions tr) \<union> {TermuxOpenApk f, AdbInstall f}"
    using install_apk_adb_actions [of env n f ?tr1] by auto
  have a2: "set (actions (snd (install_apk_adb env n f ?tr2))) \<subseteq>
              set (actions tr) \<union> {TermuxOpenApk f, AdbInstall f}"
    using install_apk_adb_actions [of env n f ?tr2] by auto
  show ?thesis
    unfolding install_apk_def Let_def using a1 a2 by auto
qed

lemma deliver_actions:
  "set (actions (snd (deliver env args f tr))) \<subseteq>
     set (actions tr) \<union>
     (if AUTO_INSTALL args \<and> fs env f \<noteq> None then {TermuxOpenApk f, AdbInstall f} else {})"
proof -
  obtain r t where i: "install_apk env (NO_NOTIFY args) f
      (notify env (NO_NOTIFY args) ''Installing'' (''Installing APK ('' @ du_h env f @ '')...'') []
         (sh_log env (''APK downloaded: '' @ f @ '' ('' @ du_h env f @ '')'') (tr @ [Du f]))) = (r, t)"
    by (cases "install_apk env (NO_NOTIFY args) f
      (notify env (NO_NOTIFY args) ''Installing'' (''Installing APK ('' @ du_h env f @ '')...'') []
         (sh_log env (''APK downloaded: '' @ f @ '' ('' @ du_h env f @ '')'') (tr @ [Du f])))")
  have "set (actions t) \<subseteq> set (actions tr) \<union> {TermuxOpenApk f, AdbInstall f}"
    using install_apk_actions [of env "NO_NOTIFY args" f
        "notify env (NO_NOTIFY args) ''Installing'' (''Installing APK ('' @ du_h env f @ '')...'') []
           (sh_log env (''APK downloaded: '' @ f @ '' ('' @ du_h env f @ '')'') (tr @ [Du f]))"] i
    by simp
  then show ?thesis
    using i by (auto simp: deliver_def Let_def split: sh_result.splits nat.splits)
qed

lemma main_actions:
  "set (actions (snd (poll_and_deliver_main env args))) \<subseteq>
     (if fst (polled env args) = Returned 0
      then {NodeDownload (download_cmd env args (CI_PROVIDER args) (IDENTIFIER args))} else {}) \<union>
     (if AUTO_INSTALL args \<and> fst (polled env args) = Returned 0 \<and>
         fst (fetched env args) = Returned 0 \<and> fs env (apk_file env args) \<noteq> None
      then {TermuxOpenApk (apk_file env args), AdbInstall (apk_file env args)} else {})"
proof -
  consider (none) "CI_PROVIDER args = []"
    | (poll) "CI_PROVIDER args \<noteq> []" "fst (polled env args) \<noteq> Returned 0"
    | (fetch) "CI_PROVIDER args \<noteq> []" "fst (polled env args) = Returned 0"
        "fst (fetched env args) \<noteq> Returned 0"
    | (deliver) "CI_PROVIDER args \<noteq> []" "fst (polled env args) = Returned 0"
        "fst (fetched env args) = Returned 0"
    by blast
  then show ?thesis
  proof cases
    case none
    then show ?thesis
      by (simp add: main_stages)
  next
    case poll
    then show ?thesis
      by (simp add: main_stages polled_actions)
  next
    case fetch
    then show ?thesis
      using fetched_actions [of env args] by (simp add: main_stages)
  next
    case deliver
    have "poll_and_deliver_main env args =
            deliver env args (apk_file env args) (snd (fetched env args))"
      using deliver by (simp add: main_stages)
    then show ?thesis
      using deliver fetched_actions [of env args]
        deliver_actions [of env args "apk_file env args" "snd (fetched env args)"]
      by (auto split: if_splits)
  qed
qed

lemma check_apk_file_actions [simp]: "actions (snd (check_apk_file env f tr)) = actions tr"
  by (simp add: check_apk_file_def)

lemma set_permissions_actions [simp]: "actions (set_permissions env args tr) = actions tr"
  by (simp add: set_permissions_def)

lemma check_adb_status_actions [simp]: "actions (snd (check_adb_status env tr)) = actions tr"
  by (simp add: check_adb_status_def Let_def split: option.splits)

lemma manual_fallback_actions [simp]: "actions (snd (manual_fallback env f tr)) = actions tr"
  by (simp add: manual_fallback_def Let_def)

lemma install_via_termux_open_actions:
  "set (actions (snd (install_via_termux_open env f tr))) \<subseteq> set (actions tr) \<union> {TermuxOpenApk f}"
  by (auto simp: install_via_termux_open_def)

lemma install_via_adb_actions:
  "set (actions (snd (install_via_adb env f tr))) \<subseteq> set (actions tr) \<union> {AdbInstall f}"
proof -
  obtain b tr' where c: "check_adb_status env tr = (b, tr')"
    by (cases "check_adb_status env tr")
  then have "actions tr' = actions tr"
    using check_adb_status_actions [of env tr] by simp
  then show ?thesis
    using c by (cases b) (auto simp: install_via_adb_def)
qed

lemma install_chain_actions:
  "set (actions (snd (install_chain env f tr))) \<subseteq>
     set (actions tr) \<union> {TermuxOpenApk f, AdbInstall f}"
proof -
  obtain b1 tr1 where t: "install_via_termux_open env f tr = (b1, tr1)"
    by (cases "install_via_termux_open env f tr")
  obtain b2 tr2 where a: "install_via_adb env f tr1 = (b2, tr2)"
    by (cases "install_via_adb env f tr1")
  have 1: "set (actions tr1) \<subseteq> set (actions tr) \<union> {TermuxOpenApk f}"
    using install_via_termux_open_actions [of env f tr] t by simp
  have 2: "set (actions tr2) \<subseteq> set (actions tr1) \<union> {AdbInstall f}"
    using install_via_adb_actions [of env f tr1] a by simp
  show ?thesis
    using t a 1 2 by (cases b1; cases b2) (auto simp: install_chain_def)
qed

lemma auto_install_main_actions:
  "set (actions (snd (auto_install_main env iargs))) \<subseteq>
     (if apk_ok env iargs then {TermuxOpenApk (APK_FILE iargs), AdbInstall (APK_FILE iargs)}
      else {})"
proof (cases "apk_ok env iargs")
  case False
  then have "actions (snd (auto_install_main env iargs)) = []"
    by (auto simp: auto_install_main_def apk_ok_def check_apk_file_def die_def)
  then show ?thesis
    by simp
next
  case True
  let ?f = "APK_FILE iargs"
  let ?tr0 = "sh_log env (''Force ADB: '' @ bool_word (FORCE_ADB iargs))
                (sh_log env (''APK: '' @ ?f)
                   (sh_log env ''Starting APK installation process...'' []))"
  let ?t = "set_permissions env iargs (snd (check_apk_file env ?f ?tr0))"
  have c: "check_apk_file env ?f ?tr0 = (Returned 0, snd (check_apk_file env ?f ?tr0))"
    using True by (simp add: apk_ok_def check_apk_file_def)
  have t: "actions ?t = []"
    by simp
  obtain b t1 where a: "install_via_adb env ?f (sh_log env ''Forcing ADB installation...'' ?t) = (b, t1)"
    by (cases "install_via_adb env ?f (sh_log env ''Forcing ADB installation...'' ?t)")
  have 1: "set (actions t1) \<subseteq> {AdbInstall ?f}"
    using install_via_adb_actions [of env ?f "sh_log env ''Forcing ADB installation...'' ?t"] a t
    by simp
  have 2: "set (actions (snd (install_chain env ?f
             (sh_log env ''Forced ADB installation failed, trying other methods...'' t1)))) \<subseteq>
           {TermuxOpenApk ?f, AdbInstall ?f}"
    using install_chain_actions [of env ?f
        "sh_log env ''Forced ADB installation failed, trying other methods...'' t1"] 1
    by auto
  have 3: "set (actions (snd (install_chain env ?f ?t))) \<subseteq> {TermuxOpenApk ?f, AdbInstall ?f}"
    using install_chain_actions [of env ?f ?t] t by simp
  have f: "auto_install_main env iargs =
      (if b then (Exited 0, sh_log env ''Installation completed successfully via ADB'' t1)
       else install_chain env ?f
              (sh_log env ''Forced ADB installation failed, trying other methods...'' t1))"
    if "FORCE_ADB iargs"
    using True a that by (subst auto_install_main_def, subst c, cases b) (simp_all add: apk_ok_def)
  have n: "auto_install_main env iargs = install_chain env ?f ?t" if "\<not> FORCE_ADB iargs"
    using True that by (subst auto_install_main_def, subst c) (simp add: apk_ok_def)
  show ?thesis
  proof (cases "FORCE_ADB iargs")
    case forced: True
    show ?thesis
      using f [OF forced] True 1 2 by (cases b) auto
  next
    case False
    then show ?thesis
      using n True 3 by simp
  qed
qed

subsection \<open>The artifact query of pollGitHubActions\<close>

definition js_succeeded :: "js_error + string \<Rightarrow> bool" where
  "js_succeeded out =
     (case out of
        Inl e \<Rightarrow> False
      | Inr s \<Rightarrow> runStatus (trim s) = ''completed'' \<and> conclusion (trim s) = Some ''success'')"

lemma github_try_block_artifact:
  "ArtifactQuery k \<in> set (snd (github_try_block env runId M j)) \<Longrightarrow>
   k = j \<and> js_succeeded (status_cmd env j)"
  by (auto simp: github_try_block_def js_succeeded_def Let_def split: sum.splits if_splits)

lemma github_try_block_result:
  "fst (github_try_block env runId M j) = Inr (Some r) \<Longrightarrow>
   js_succeeded (status_cmd env j) \<and> ArtifactQuery j \<in> set (snd (github_try_block env runId M j))"
  by (auto simp: github_try_block_def js_succeeded_def Let_def split: sum.splits if_splits)

lemma poll_attempts_events:
  assumes "\<And>j. \<forall>e \<in> set (snd (tb j)). Q e" and "\<And>s. Q (Logged s)" and "\<And>w. Q (Wait w)"
      and "\<forall>e \<in> set tr. Q e"
  shows "\<forall>e \<in> set (snd (poll_attempts tb m a tr)). Q e"
  using assms(4)
proof (induction "nat (m * 2 + 1 - a)" arbitrary: a tr)
  case 0
  then show ?case
    by (subst poll_attempts.simps) simp
next
  case (Suc n)
  obtain res evs where tb: "tb a = (res, evs)"
    by (cases "tb a")
  have evs: "\<forall>e \<in> set evs. Q e"
    using assms(1) [of a] tb by simp
  have n: "n = nat (m * 2 + 1 - (a + 1))"
    using Suc.hyps(2) by simp
  have step: "\<forall>e \<in> set (snd (poll_attempts tb m (a + 1) t)). Q e" if "\<forall>e \<in> set t. Q e" for t
    using Suc.hyps(1) [OF n that] .
  have 1: "\<forall>e \<in> set (snd (poll_attempts tb m (a + 1) (tr @ evs))). Q e"
    using step [of "tr @ evs"] Suc.prems evs by auto
  have 2: "\<forall>e \<in> set (snd (poll_attempts tb m (a + 1) (tr @ evs @ [Logged s, Wait 30000]))). Q e"
    for s
    using step [of "tr @ evs @ [Logged s, Wait 30000]"] Suc.prems evs assms(2,3) by auto
  show ?case
    using tb Suc.prems evs 1 2
    by (subst poll_attempts.simps) (auto split: sum.splits option.splits)
qed

lemma poll_attempts_result:
  "fst (poll_attempts tb m a tr) = Inr r \<Longrightarrow>
   \<exists>j. a \<le> j \<and> j \<le> m * 2 \<and> fst (tb j) = Inr (Some r) \<and>
       set (snd (tb j)) \<subseteq> set (snd (poll_attempts tb m a tr))"
proof (induction "nat (m * 2 + 1 - a)" arbitrary: a tr)
  case 0
  then have "\<not> a \<le> m * 2"
    by simp
  then have "\<exists>e. fst (poll_attempts tb m a tr) = Inl e"
    by (subst poll_attempts.simps) simp
  then show ?case
    using "0.prems" by auto
next
  case (Suc n)
  have le: "a \<le> m * 2"
    using Suc.hyps(2) by simp
  obtain res evs where tb: "tb a = (res, evs)"
    by (cases "tb a")
  have n: "n = nat (m * 2 + 1 - (a + 1))"
    using Suc.hyps(2) by simp
  show ?case
  proof (cases "res = Inr (Some r)")
    case True
    have "poll_attempts tb m a tr = (Inr r, tr @ evs)"
      using le tb True by (subst poll_attempts.simps) simp
    then show ?thesis
      using le tb True by (intro exI [of _ a]) simp
  next
    case False
    define t where "t =
      (case res of
         Inl e \<Rightarrow> tr @ evs @ [Logged (''Polling attempt '' @ string_of_int a @ '' failed: '' @
                                      message e), Wait 30000]
       | Inr x \<Rightarrow> tr @ evs)"
    have t: "poll_attempts tb m a tr = poll_attempts tb m (a + 1) t"
      using le tb False Suc.prems unfolding t_def
      by (subst (asm) poll_attempts.simps, subst poll_attempts.simps)
         (auto split: sum.splits option.splits if_splits)
    then have "fst (poll_attempts tb m (a + 1) t) = Inr r"
      using Suc.prems by simp
    then obtain j where "a + 1 \<le> j" "j \<le> m * 2" "fst (tb j) = Inr (Some r)"
        "set (snd (tb j)) \<subseteq> set (snd (poll_attempts tb m (a + 1) t))"
      using Suc.hyps(1) [OF n] by blast
    then show ?thesis
      using t by (intro exI [of _ j]) simp
  qed
qed

lemma pollGitHubActions_artifact:
  "ArtifactQuery k \<in> set (snd (pollGitHubActions env repo runId m)) \<Longrightarrow>
   js_succeeded (status_cmd env k)"
proof -
  let ?Q = "\<lambda>e. \<forall>k. e = ArtifactQuery k \<longrightarrow> js_succeeded (status_cmd env k)"
  have "\<forall>e \<in> set (snd (pollGitHubActions env repo runId m)). ?Q e"
    unfolding pollGitHubActions_def
  proof (rule poll_attempts_events)
    fix j
    show "\<forall>e \<in> set (snd (github_try_block env runId (m * 2) j)). ?Q e"
      using github_try_block_artifact [of _ env runId "m * 2" j] by blast
  qed simp_all
  then show "ArtifactQuery k \<in> set (snd (pollGitHubActions env repo runId m)) \<Longrightarrow> ?thesis"
    by blast
qed

lemma pollGitHubActions_result:
  assumes "fst (pollGitHubActions env repo runId m) = Inr r"
  shows "\<exists>k. 1 \<le> k \<and> k \<le> m * 2 \<and> js_succeeded (status_cmd env k) \<and>
             ArtifactQuery k \<in> set (snd (pollGitHubActions env repo runId m))"
proof -
  obtain j where j: "1 \<le> j" "j \<le> m * 2"
      "fst (github_try_block env runId (m * 2) j) = Inr (Some r)"
      "set (snd (github_try_block env runId (m * 2) j)) \<subseteq>
         set (snd (pollGitHubActions env repo runId m))"
    using poll_attempts_result [OF assms [unfolded pollGitHubActions_def]]
    unfolding pollGitHubActions_def by blast
  then show ?thesis
    using github_try_block_result [OF j(3)] by (intro exI [of _ j]) auto
qed

subsection \<open>The command line of download_artifact.js\<close>

text \<open>
  \<^verbatim>\<open>main\<close> of the script with the positional command line. The three download
  methods and the constructor of the downloader are taken as given: a download
  returns its result object, of which \<^verbatim>\<open>main\<close> reads \<^verbatim>\<open>artifactPath\<close> and prints the
  JSON text, or throws; \<open>cli_fs\<close> is the file system the validator finds after the
  download. An error thrown before the \<^verbatim>\<open>try\<close> block rejects the promise of
  \<^verbatim>\<open>main\<close>, which \<^verbatim>\<open>main().catch(console.error)\<close> prints; the process then ends with
  code 0.
\<close>

record download_result =
  artifactPath :: string
  as_json :: string

record cli_env =
  cli_path :: node_path
  cli_fs :: filesystem
  new_downloader :: "js_error option"
  ensureDownloadDir :: "string \<Rightarrow> js_error option"
  downloadFromGitHub :: "string \<Rightarrow> string \<Rightarrow> string option \<Rightarrow> js_error + download_result"
  downloadFromCodemagic :: "string \<Rightarrow> js_error + download_result"
  downloadFromEAS :: "string \<Rightarrow> js_error + download_result"

datatype cli_event = Usage | Cleanup | LogLine string | Printed string | PrintedError string

text \<open>The UTF-8 bytes of the signs the script prints.\<close>

definition check_mark :: string where
  "check_mark = [CHR 0xE2, CHR 0x9C, CHR 0x85]"

definition cross_mark :: string where
  "cross_mark = [CHR 0xE2, CHR 0x9D, CHR 0x8C]"

definition folder_sign :: string where
  "folder_sign = [CHR 0xF0, CHR 0x9F, CHR 0x93, CHR 0x81]"

definition chart_sign :: string where
  "chart_sign = [CHR 0xF0, CHR 0x9F, CHR 0x93, CHR 0x8A]"

text \<open>\<^verbatim>\<open>args[args.indexOf(flag) + 1]\<close> when the flag is there.\<close>

fun arg_after :: "string \<Rightarrow> string list \<Rightarrow> string option" where
  "arg_after flag [] = None"
| "arg_after flag (a # rest) =
     (if a = flag then (case rest of [] \<Rightarrow> None | b # bs \<Rightarrow> Some b) else arg_after flag rest)"

definition select_download :: "cli_env \<Rightarrow> string list \<Rightarrow> js_error + download_result" where
  "select_download env args =
     (let provider = args ! 0 in
      if provider = ''github'' then
        (if length args < 3
         then Inl (Error ''GitHub provider requires: <repo> <run-id> [artifact-name]'')
         else downloadFromGitHub env (args ! 1) (args ! 2)
                (if 3 < length args then Some (args ! 3) else None))
      else if provider = ''codemagic'' then
        (if length args < 2 then Inl (Error ''Codemagic provider requires: <build-id>'')
         else downloadFromCodemagic env (args ! 1))
      else if provider = ''eas'' then
        (if length args < 2 then Inl (Error ''EAS provider requires: <build-id>'')
         else downloadFromEAS env (args ! 1))
      else Inl (Error (''Unknown provider: '' @ provider @ ''. Use: github, codemagic, or eas'')))"

definition success_line :: cli_event where
  "success_line = Printed (CHR 0x0A # check_mark @ '' Download completed successfully!'')"

text \<open>The \<^verbatim>\<open>try\<close> block: what it throws, if anything, and what it prints and logs.\<close>

definition try_block :: "cli_env \<Rightarrow> string list \<Rightarrow> js_error option \<times> cli_event list" where
  "try_block env args =
     (let evs = (if ''--cleanup'' \<in> set args then [Cleanup] else []) in
      case (case arg_after ''--output'' args of
              None \<Rightarrow> None
            | Some d \<Rightarrow> if d = [] then None else ensureDownloadDir env d) of
        Some e \<Rightarrow> (Some e, evs)
      | None \<Rightarrow>
         (case select_download env args of
            Inl e \<Rightarrow> (Some e, evs)
          | Inr result \<Rightarrow>
             (case validateArtifact (cli_path env) (cli_fs env) (artifactPath result) of
                (Inl e, ls) \<Rightarrow> (Some e, evs @ map LogLine ls)
              | (Inr ok, ls) \<Rightarrow>
                  (None,
                   evs @ map LogLine ls @
                   [success_line,
                    Printed (folder_sign @ '' Artifact: '' @ artifactPath result),
                    Printed (chart_sign @ '' Provider: '' @ args ! 0)] @
                   (if ''--json'' \<in> set args then [Printed (as_json result)] else [])))))"

definition cli_main :: "cli_env \<Rightarrow> string list \<Rightarrow> nat \<times> cli_event list" where
  "cli_main env args =
     (if length args < 2 then (1, [Usage])
      else
        (case new_downloader env of
           Some e \<Rightarrow> (0, [PrintedError (message e)])
         | None \<Rightarrow>
            (case try_block env args of
               (Some e, evs) \<Rightarrow>
                 (1, evs @ [PrintedError (cross_mark @ '' Download failed: '' @ message e)])
             | (None, evs) \<Rightarrow> (0, evs))))"

lemma cli_main_success:
  assumes "success_line \<in> set (snd (cli_main env args))"
  shows "\<exists>res st. select_download env args = Inr res \<and>
                  fst (validateArtifact (cli_path env) (cli_fs env) (artifactPath res)) = Inr True \<and>
                  cli_fs env (artifactPath res) = Some st \<and> 0 < size_bytes st \<and>
                  fst (cli_main env args) = 0"
proof -
  have v: "\<exists>st. fs p = Some st \<and> 0 < size_bytes st \<and> ok"
    if "validateArtifact P fs p = (Inr ok, ls)" for P fs p ok ls
    using that by (auto simp: validateArtifact_def Let_def split: option.splits if_splits)
  have l: "success_line \<notin> set (map LogLine ls)" for ls
    by (auto simp: success_line_def)
  show ?thesis
    using assms l
    by (auto simp: cli_main_def try_block_def Let_def success_line_def
             split: if_splits option.splits sum.splits prod.splits dest!: v)
qed

subsection \<open>Claim C3\<close>

text \<open>
  The phone of the EAS run with \<^verbatim>\<open>termux-open\<close> installed; a GitHub run that is a
  success at the first query; a download of the EAS build by the script with the
  positional command line.
\<close>

definition installing :: sh_env where
  "installing =
     stranded \<lparr> has_command := (\<lambda>c. c = ''eas'' \<or> c = ''termux-open''),
                termux_open := (\<lambda>n p. True) \<rparr>"

definition built :: github_poll_env where
  "built = \<lparr> status_cmd = (\<lambda>n. Inr ''completed:success''),
             artifacts_cmd = (\<lambda>n. Inr ''https://api.github.com/zip'') \<rparr>"

definition eas_cli :: cli_env where
  "eas_cli =
     \<lparr> cli_path = posix_path, cli_fs = fs_example, new_downloader = None,
       ensureDownloadDir = (\<lambda>d. None),
       downloadFromGitHub = (\<lambda>repo runId artifactName. Inl (Error ''gh: command not found'')),
       downloadFromCodemagic = (\<lambda>buildId. Inl (Error ''CODEMAGIC_ACCESS_TOKEN not set'')),
       downloadFromEAS = (\<lambda>buildId. Inr \<lparr> artifactPath = ''/dl/app.APK'', as_json = ''{}'' \<rparr>) \<rparr>"

text \<open>
  Claim C3 fails as stated: the installers take any file that is there, validated
  or not. auto_install.sh, given the empty file \<^verbatim>\<open>/dl/app.apk\<close>, installs it over
  ADB and exits with 0; poll_and_deliver.sh hands the empty file named by
  \<^verbatim>\<open>apk_file\<close> to \<^verbatim>\<open>termux-open\<close>. \<^verbatim>\<open>validateArtifact\<close> rejects both files.
\<close>

theorem staged_pipeline_counterexample:
  "AdbInstall ''/dl/app.apk'' \<in> set (snd (auto_install_main phone plain_install)) \<and>
   fst (auto_install_main phone plain_install) = Exited 0 \<and>
   fst (validateArtifact posix_path (fs phone) ''/dl/app.apk'') =
     Inl (Error ''Artifact file is empty: /dl/app.apk'') \<and>
   TermuxOpenApk captured_text \<in> set (snd (poll_and_deliver_main installing eas_run)) \<and>
   fst (poll_and_deliver_main installing eas_run) = Exited 0 \<and>
   fst (validateArtifact posix_path (fs installing) captured_text) =
     Inl (Error (''Artifact file is empty: '' @ captured_text))"
  by code_simp

text \<open>
  Claim C3, amended. poll_and_deliver.sh runs the download script only after its
  poll has returned success, and then some status query of the poll has reported
  the build as succeeded (GitHub: completed with conclusion success; Codemagic:
  finished with success true; EAS: finished). It hands a file to an installer only
  with \<^verbatim>\<open>--auto-install\<close>, after the download function has returned success, and
  only the path held in \<^verbatim>\<open>apk_file\<close>, which exists. auto_install.sh hands to an
  installer only the file named on its command line, which exists, is a regular
  file and is readable. \<^verbatim>\<open>pollGitHubActions\<close> asks for the artifact only at an
  attempt whose status query reported completed with conclusion success, and it
  returns a result only after such an attempt. download_artifact.js prints its
  line of success only when \<^verbatim>\<open>validateArtifact\<close> has passed the downloaded file,
  which then exists and is not empty. Neither shell script runs the validator.
\<close>

theorem staged_pipeline:
  "(NodeDownload c \<in> set (snd (poll_and_deliver_main env args)) \<longrightarrow>
      fst (polled env args) = Returned 0 \<and>
      (\<exists>n>0. build_succeeded env (CI_PROVIDER args) n)) \<and>
   (TermuxOpenApk p \<in> set (snd (poll_and_deliver_main env args)) \<or>
    AdbInstall p \<in> set (snd (poll_and_deliver_main env args)) \<longrightarrow>
      AUTO_INSTALL args \<and> fst (fetched env args) = Returned 0 \<and> p = apk_file env args \<and>
      fs env p \<noteq> None \<and> (\<exists>n>0. build_succeeded env (CI_PROVIDER args) n)) \<and>
   (TermuxOpenApk q \<in> set (snd (auto_install_main env iargs)) \<or>
    AdbInstall q \<in> set (snd (auto_install_main env iargs)) \<longrightarrow>
      q = APK_FILE iargs \<and> is_file env q \<and> readable env q) \<and>
   (ArtifactQuery k \<in> set (snd (pollGitHubActions jenv repo runId m)) \<longrightarrow>
      js_succeeded (status_cmd jenv k)) \<and>
   (fst (pollGitHubActions jenv repo runId m) = Inr r \<longrightarrow>
      (\<exists>j. 1 \<le> j \<and> j \<le> m * 2 \<and> js_succeeded (status_cmd jenv j) \<and>
           ArtifactQuery j \<in> set (snd (pollGitHubActions jenv repo runId m)))) \<and>
   (success_line \<in> set (snd (cli_main cenv cargs)) \<longrightarrow>
      (\<exists>res st. select_download cenv cargs = Inr res \<and>
         fst (validateArtifact (cli_path cenv) (cli_fs cenv) (artifactPath res)) = Inr True \<and>
         cli_fs cenv (artifactPath res) = Some st \<and> 0 < size_bytes st))"
proof -
  let ?main = "snd (poll_and_deliver_main env args)"
  let ?auto = "snd (auto_install_main env iargs)"
  have ok: "\<exists>n>0. build_succeeded env (CI_PROVIDER args) n" if "fst (polled env args) = Returned 0"
    using polled_returned [OF that] .
  have 1: "fst (polled env args) = Returned 0 \<and> (\<exists>n>0. build_succeeded env (CI_PROVIDER args) n)"
    if "NodeDownload c \<in> set ?main"
  proof -
    have "NodeDownload c \<in> set (actions ?main)"
      using that by (simp add: in_actions)
    then have "fst (polled env args) = Returned 0"
      using main_actions [of env args] by (auto split: if_splits)
    then show ?thesis
      using ok by simp
  qed
  have 2: "AUTO_INSTALL args \<and> fst (fetched env args) = Returned 0 \<and> p = apk_file env args \<and>
           fs env p \<noteq> None \<and> (\<exists>n>0. build_succeeded env (CI_PROVIDER args) n)"
    if "TermuxOpenApk p \<in> set ?main \<or> AdbInstall p \<in> set ?main"
  proof -
    have "TermuxOpenApk p \<in> set (actions ?main) \<or> AdbInstall p \<in> set (actions ?main)"
      using that by (auto simp: in_actions)
    then have "AUTO_INSTALL args \<and> fst (polled env args) = Returned 0 \<and>
               fst (fetched env args) = Returned 0 \<and> fs env (apk_file env args) \<noteq> None \<and>
               p = apk_file env args"
      using main_actions [of env args] by (auto split: if_splits)
    then show ?thesis
      using ok by simp
  qed
  have 3: "q = APK_FILE iargs \<and> is_file env q \<and> readable env q"
    if "TermuxOpenApk q \<in> set ?auto \<or> AdbInstall q \<in> set ?auto"
  proof -
    have "TermuxOpenApk q \<in> set (actions ?auto) \<or> AdbInstall q \<in> set (actions ?auto)"
      using that by (auto simp: in_actions)
    then have "apk_ok env iargs \<and> q = APK_FILE iargs"
      using auto_install_main_actions [of env iargs] by (auto split: if_splits)
    then show ?thesis
      by (simp add: apk_ok_def)
  qed
  have 4: "js_succeeded (status_cmd jenv k)"
    if "ArtifactQuery k \<in> set (snd (pollGitHubActions jenv repo runId m))"
    using pollGitHubActions_artifact [OF that] .
  have 5: "\<exists>j. 1 \<le> j \<and> j \<le> m * 2 \<and> js_succeeded (status_cmd jenv j) \<and>
             ArtifactQuery j \<in> set (snd (pollGitHubActions jenv repo runId m))"
    if "fst (pollGitHubActions jenv repo runId m) = Inr r"
    using pollGitHubActions_result [OF that] .
  have 6: "\<exists>res st. select_download cenv cargs = Inr res \<and>
             fst (validateArtifact (cli_path cenv) (cli_fs cenv) (artifactPath res)) = Inr True \<and>
             cli_fs cenv (artifactPath res) = Some st \<and> 0 < size_bytes st"
    if "success_line \<in> set (snd (cli_main cenv cargs))"
    using cli_main_success [OF that] by blast
  from 1 2 3 4 5 6 show ?thesis
    by blast
qed

theorem staged_pipeline_witness:
  "NodeDownload (download_cmd installing eas_run ''eas'' ''b7'')
     \<in> set (snd (poll_and_deliver_main installing eas_run)) \<and>
   TermuxOpenApk captured_text \<in> set (snd (poll_and_deliver_main installing eas_run)) \<and>
   fst (polled installing eas_run) = Returned 0 \<and>
   fst (fetched installing eas_run) = Returned 0 \<and>
   (\<exists>n. 0 < n \<and> build_succeeded installing ''eas'' n) \<and>
   apk_file installing eas_run = captured_text \<and>
   fs installing captured_text \<noteq> None \<and>
   AdbInstall ''/dl/app.apk'' \<in> set (snd (auto_install_main phone plain_install)) \<and>
   is_file phone ''/dl/app.apk'' \<and> readable phone ''/dl/app.apk'' \<and>
   fst (pollGitHubActions built ''u/r'' ''42'' 1) =
     Inr \<lparr> success = True, artifactUrl = ''https://api.github.com/zip'', buildRef = ''42'' \<rparr> \<and>
   (\<exists>j. ArtifactQuery j \<in> set (snd (pollGitHubActions built ''u/r'' ''42'' 1)) \<and>
        js_succeeded (status_cmd built j)) \<and>
   success_line \<in> set (snd (cli_main eas_cli [''eas'', ''b7''])) \<and>
   fst (validateArtifact posix_path fs_example ''/dl/app.APK'') = Inr True"
proof -
  let ?r = "\<lparr> success = True, artifactUrl = ''https://api.github.com/zip'', buildRef = ''42'' \<rparr>"
  have d: "NodeDownload (download_cmd installing eas_run ''eas'' ''b7'')
             \<in> set (snd (poll_and_deliver_main installing eas_run))"
    by code_simp
  have t: "TermuxOpenApk captured_text \<in> set (snd (poll_and_deliver_main installing eas_run))"
    by code_simp
  have a: "AdbInstall ''/dl/app.apk'' \<in> set (snd (auto_install_main phone plain_install))"
    by code_simp
  obtain evs where "github_try_block built ''42'' (1 * 2) 1 = (Inr (Some ?r), evs)"
    using github_try_block_success [of built 1 "''42''" "1 * 2"] by (auto simp: built_def)
  then have "fst (poll_attempts (github_try_block built ''42'' (1 * 2)) 1 1 tr) = Inr ?r" for tr
    by (subst poll_attempts.simps) simp
  then have g: "fst (pollGitHubActions built ''u/r'' ''42'' 1) = Inr ?r"
    by (simp add: pollGitHubActions_def)
  have s: "success_line \<in> set (snd (cli_main eas_cli [''eas'', ''b7'']))"
    by code_simp
  have c: "CI_PROVIDER eas_run = ''eas''" "select_download eas_cli [''eas'', ''b7''] =
      Inr \<lparr> artifactPath = ''/dl/app.APK'', as_json = ''{}'' \<rparr>"
    "cli_path eas_cli = posix_path" "cli_fs eas_cli = fs_example"
    by (simp_all add: eas_run_def select_download_def eas_cli_def)
  note w = staged_pipeline [of "download_cmd installing eas_run ''eas'' ''b7''" installing eas_run
      captured_text "''/dl/app.apk''" plain_install _ built "''u/r''" "''42''" 1 ?r
      eas_cli "[''eas'', ''b7'']"]
  note v = staged_pipeline [of _ phone _ _ "''/dl/app.apk''" plain_install]
  have 1: "fst (polled installing eas_run) = Returned 0 \<and>
           (\<exists>n. 0 < n \<and> build_succeeded installing ''eas'' n)"
    using w d c(1) by simp
  have 2: "fst (fetched installing eas_run) = Returned 0 \<and>
           captured_text = apk_file installing eas_run \<and> fs installing captured_text \<noteq> None"
    using w t by blast
  have 3: "is_file phone ''/dl/app.apk'' \<and> readable phone ''/dl/app.apk''"
    using v a by blast
  have 4: "\<exists>j. ArtifactQuery j \<in> set (snd (pollGitHubActions built ''u/r'' ''42'' 1)) \<and>
               js_succeeded (status_cmd built j)"
    using w g by blast
  have 5: "fst (validateArtifact posix_path fs_example ''/dl/app.APK'') = Inr True"
    using w s c(2-4) by auto
  from d t a g s 1 2 3 4 5 show ?thesis
    by simp
qed

end
